theory Spec2Isabelle
  imports Complex_Main "HOL-Library.AList"
begin

section \<open>Python values used by the two modules\<close>

text \<open>
  The repository is \<^verbatim>\<open>fexp/writers.py\<close> (the function \<^verbatim>\<open>write_image\<close>) and
  \<^verbatim>\<open>fexp/plotting.py\<close> (\<^verbatim>\<open>plot_2d\<close> and its helpers). Both are sequences of calls
  into libraries. The embedding keeps the control flow of the source and makes the effects
  explicit: the file system is a value that is passed in and returned, a raised exception
  is a value of \<open>exn\<close>, and whatever a library decides by itself (the clock, what the
  codec does, which arrays and values it refuses, floating-point formatting and rounding)
  is a field of a record of parameters: every library call that can raise does so when
  the parameters say so.
\<close>

datatype exn =
    TypeError string
  | KeyError string
  | ValueError string
  | RuntimeError string
  | IndexError string
  | AttributeError string

subsection \<open>Strings\<close>

text \<open>\<^verbatim>\<open>s.startswith(pre)\<close>, \<^verbatim>\<open>s.endswith(suf)\<close> and \<^verbatim>\<open>sub in s\<close> on strings.\<close>

definition startswith :: "string \<Rightarrow> string \<Rightarrow> bool" where
  "startswith s pre = (take (length pre) s = pre)"

definition endswith :: "string \<Rightarrow> string \<Rightarrow> bool" where
  "endswith s suf = (drop (length s - length suf) s = suf)"

fun contains :: "string \<Rightarrow> string \<Rightarrow> bool" where
  "contains [] sub = (sub = [])"
| "contains (c # cs) sub = (startswith (c # cs) sub \<or> contains cs sub)"

text \<open>\<^verbatim>\<open>sep.join(xs)\<close>, and a text between the single quotes with which Python prints
  it.\<close>

definition str_join :: "string \<Rightarrow> string list \<Rightarrow> string" where
  "str_join sep xs = concat (case xs of [] \<Rightarrow> [] | x # ys \<Rightarrow> x # map (\<lambda>y. sep @ y) ys)"

definition quoted :: "string \<Rightarrow> string" where
  "quoted s = [CHR 0x27] @ s @ [CHR 0x27]"

text \<open>\<^verbatim>\<open>s.split(sep)\<close> for a separator of one character: never an empty list.\<close>

fun str_split :: "char \<Rightarrow> string \<Rightarrow> string list" where
  "str_split sep [] = [[]]"
| "str_split sep (c # cs) =
     (if c = sep then [] # str_split sep cs
      else (case str_split sep cs of
              [] \<Rightarrow> [[c]]
            | w # ws \<Rightarrow> (c # w) # ws))"

text \<open>
  \<^verbatim>\<open>int(s)\<close> in base 10: white space around, an optional sign, then digits, where one
  underscore may stand between two digits. Anything else raises ValueError, here \<open>None\<close>.
  Characters are read as code points below 256, where the white space of Python is
  9 to 13, 28 to 32, 133 and 160.
\<close>

definition is_space :: "char \<Rightarrow> bool" where
  "is_space c = ((of_char c :: nat) \<in> {9, 10, 11, 12, 13, 28, 29, 30, 31, 32, 133, 160})"

definition strip :: "string \<Rightarrow> string" where
  "strip s = rev (dropWhile is_space (rev (dropWhile is_space s)))"

definition is_digit :: "char \<Rightarrow> bool" where
  "is_digit c = (48 \<le> (of_char c :: nat) \<and> (of_char c :: nat) \<le> 57)"

definition digit_val :: "char \<Rightarrow> nat" where
  "digit_val c = of_char c - 48"

fun digits_ok :: "string \<Rightarrow> bool" where
  "digits_ok [] = False"
| "digits_ok [c] = is_digit c"
| "digits_ok (c # d # cs) =
     (is_digit c \<and> (if d = CHR ''_'' then digits_ok cs else digits_ok (d # cs)))"

definition digits_value :: "string \<Rightarrow> nat" where
  "digits_value s = foldl (\<lambda>a c. 10 * a + digit_val c) 0 (filter is_digit s)"

definition py_int :: "string \<Rightarrow> int option" where
  "py_int s =
     (let t = strip s;
          neg = (t \<noteq> [] \<and> hd t = CHR ''-'');
          body = (if t \<noteq> [] \<and> (hd t = CHR ''-'' \<or> hd t = CHR ''+'') then tl t else t)
      in if digits_ok body
         then Some (if neg then - int (digits_value body) else int (digits_value body))
         else None)"

text \<open>\<^verbatim>\<open>str(n)\<close> of an integer, and the format \<^verbatim>\<open>{n:03d}\<close>: zeros fill up to a width
  of three, which counts the sign.\<close>

definition digit_char :: "nat \<Rightarrow> char" where
  "digit_char n = ''0123456789'' ! n"

fun str_nat :: "nat \<Rightarrow> string" where
  "str_nat n = (if n < 10 then [digit_char n] else str_nat (n div 10) @ [digit_char (n mod 10)])"

declare str_nat.simps [simp del]

definition str_int :: "int \<Rightarrow> string" where
  "str_int i = (if i < 0 then CHR ''-'' # str_nat (nat (- i)) else str_nat (nat i))"

definition zfill :: "nat \<Rightarrow> string \<Rightarrow> string" where
  "zfill width s = replicate (width - length s) CHR ''0'' @ s"

definition format_03d :: "int \<Rightarrow> string" where
  "format_03d i =
     (if i < 0 then CHR ''-'' # zfill 2 (str_nat (nat (- i))) else zfill 3 (str_nat (nat i)))"

text \<open>\<^verbatim>\<open>max(xs)\<close> of a list that is not empty.\<close>

definition max_list :: "int list \<Rightarrow> int" where
  "max_list xs = fold max (tl xs) (hd xs)"

subsection \<open>Paths\<close>

text \<open>
  A path is the text of the \<^verbatim>\<open>pathlib.Path\<close> object that line 40 builds (after
  \<^verbatim>\<open>expanduser\<close>): no trailing separator, \<^verbatim>\<open>.\<close> for the current directory.
  \<open>path_suffix\<close> is \<^verbatim>\<open>Path.suffix\<close>: the text from the last dot of the last component,
  when that dot is neither its first nor its last character. \<open>path_div\<close> is
  \<^verbatim>\<open>filepath / name\<close>, \<open>os_path_join\<close> is \<^verbatim>\<open>os.path.join\<close> with a relative second
  part.
\<close>

definition path_name :: "string \<Rightarrow> string" where
  "path_name p = rev (takeWhile (\<lambda>c. c \<noteq> CHR ''/'') (rev p))"

definition path_suffix :: "string \<Rightarrow> string" where
  "path_suffix p =
     (let name = path_name p;
          ext = rev (takeWhile (\<lambda>c. c \<noteq> CHR ''.'') (rev name))
      in if CHR ''.'' \<in> set name \<and> ext \<noteq> [] \<and> length ext + 1 < length name
         then CHR ''.'' # ext else [])"

definition path_div :: "string \<Rightarrow> string \<Rightarrow> string" where
  "path_div p name =
     (if p = ''.'' then name
      else if endswith p ''/'' then p @ name
      else p @ ''/'' @ name)"

definition os_path_join :: "string \<Rightarrow> string \<Rightarrow> string" where
  "os_path_join p name = (if p = [] \<or> endswith p ''/'' then p @ name else p @ ''/'' @ name)"

text \<open>
  Line 40, \<^verbatim>\<open>pathlib.Path(filepath).expanduser()\<close>, leaves an argument as it is when
  the argument is a \<open>simple_path\<close>: components that are neither empty nor \<^verbatim>\<open>.\<close>, one
  separator between two of them, at most one in front and none behind, and no \<^verbatim>\<open>~\<close>
  in front. The theorems on what is written are stated for such arguments; for any
  other, \<open>filepath\<close> below is the text of the path that line 40 returns, if it does.
\<close>

definition simple_path :: "string \<Rightarrow> bool" where
  "simple_path p =
     (p \<noteq> [] \<and> \<not> startswith p ''~'' \<and>
      list_all (\<lambda>c. c \<noteq> [] \<and> c \<noteq> ''.'')
        (str_split CHR ''/'' (if startswith p ''/'' then tl p else p)))"

subsection \<open>Arrays, images and metadata\<close>

text \<open>
  A numpy array is the name of its element type, its shape and its elements in row-major
  order, each element the number it stands for. A sequence of numbers in the metadata
  is a tuple or a list, and Python finds a tuple and a list different whatever they
  hold. The metadata dictionary is a record of its recognised keys, \<open>None\<close> for a key
  that is absent.
\<close>

record ndarray =
  dtype :: string
  shape :: "nat list"
  elems :: "real list"

datatype pyseq =
    Tuple "real list"
  | PyList "real list"

fun items :: "pyseq \<Rightarrow> real list" where
  "items (Tuple xs) = xs"
| "items (PyList xs) = xs"

definition ndim :: "ndarray \<Rightarrow> nat" where
  "ndim a = length (shape a)"

record metadata =
  spacing :: "pyseq option"
  orig_spacing :: "pyseq option"
  origin :: "pyseq option"
  direction :: "pyseq option"
  series_description :: "string option"
  modality :: "string option"

text \<open>Truth value of a dictionary (\<^verbatim>\<open>if metadata:\<close>): it has a key.\<close>

definition truthy :: "metadata \<Rightarrow> bool" where
  "truthy md =
     (\<not> (spacing md = None \<and> orig_spacing md = None \<and> origin md = None \<and>
         direction md = None \<and> series_description md = None \<and> modality md = None))"

text \<open>
  A SimpleITK image: the fields are named after the methods that read them. The size is
  the array's shape reversed, so the first axis of the array is the third of the image.
\<close>

record sitk_image =
  GetSize :: "nat list"
  GetSpacing :: "real list"
  GetOrigin :: "real list"
  GetDirection :: "real list"
  pixels :: "real list"

definition GetDimension :: "sitk_image \<Rightarrow> nat" where
  "GetDimension img = length (GetSize img)"

definition GetDepth :: "sitk_image \<Rightarrow> nat" where
  "GetDepth img = (if GetDimension img < 3 then 0 else GetSize img ! 2)"

definition identity_direction :: "nat \<Rightarrow> real list" where
  "identity_direction n =
     concat (map (\<lambda>i. map (\<lambda>j. if i = j then 1 else 0) [0..<n]) [0..<n])"

text \<open>A slice \<^verbatim>\<open>sitk_image[:, :, idx]\<close> of an image of three dimensions, with the tags
  set on it by \<^verbatim>\<open>SetMetaData\<close>.\<close>

record image_slice =
  slice_size :: "nat list"
  slice_pixels :: "real list"
  MetaData :: "(string \<times> string) list"

definition SetMetaData :: "string \<Rightarrow> string \<Rightarrow> image_slice \<Rightarrow> image_slice" where
  "SetMetaData tag v sl = sl\<lparr>MetaData := AList.update tag v (MetaData sl)\<rparr>"

definition extract_slice :: "sitk_image \<Rightarrow> nat \<Rightarrow> image_slice" where
  "extract_slice img idx =
     (let n = (GetSize img ! 0) * (GetSize img ! 1)
      in \<lparr>slice_size = take 2 (GetSize img),
          slice_pixels = take n (drop (idx * n) (pixels img)),
          MetaData = []\<rparr>)"

subsection \<open>The file system and the libraries\<close>

text \<open>
  A file holds what a writer was given: the image and the compression flag. The file
  system lists its directories and its files by path. The slice writer, given a file
  name, writes that file.
\<close>

datatype file_content =
    Image_file sitk_image bool
  | Slice_file image_slice bool
  | Other_file string

record filesystem =
  dirs :: "string list"
  files :: "(string \<times> file_content) list"

definition is_dir :: "filesystem \<Rightarrow> string \<Rightarrow> bool" where
  "is_dir fs p = (p \<in> set (dirs fs))"

definition write_file :: "string \<Rightarrow> file_content \<Rightarrow> filesystem \<Rightarrow> filesystem" where
  "write_file p c fs = fs\<lparr>files := AList.update p c (files fs)\<rparr>"

definition read_file :: "filesystem \<Rightarrow> string \<Rightarrow> file_content option" where
  "read_file fs p = map_of (files fs) p"

text \<open>The entries of directory \<open>d\<close>: the names \<open>n\<close> with \<open>path_div d n\<close> in the file
  system.\<close>

definition child_name :: "string \<Rightarrow> string \<Rightarrow> string option" where
  "child_name d p =
     (if d = ''.'' then (if p \<noteq> [] \<and> CHR ''/'' \<notin> set p then Some p else None)
      else (let pre = (if endswith d ''/'' then d else d @ ''/'');
                n = drop (length pre) p
            in if startswith p pre \<and> n \<noteq> [] \<and> CHR ''/'' \<notin> set n then Some n else None))"

definition listdir :: "filesystem \<Rightarrow> string \<Rightarrow> string list" where
  "listdir fs d = List.map_filter (child_name d) (map fst (files fs) @ dirs fs)"

text \<open>\<^verbatim>\<open>fnmatch\<close> of a name against a pattern whose only wildcard is \<^verbatim>\<open>*\<close>.\<close>

fun fnmatch :: "string \<Rightarrow> string \<Rightarrow> bool" where
  "fnmatch [] [] = True"
| "fnmatch (c # cs) [] = False"
| "fnmatch [] (p # ps) = (p = CHR ''*'' \<and> fnmatch [] ps)"
| "fnmatch (c # cs) (p # ps) =
     (if p = CHR ''*'' then fnmatch (c # cs) ps \<or> fnmatch cs (p # ps)
      else c = p \<and> fnmatch cs ps)"

definition has_magic :: "string \<Rightarrow> bool" where
  "has_magic p = (CHR ''*'' \<in> set p \<or> CHR ''?'' \<in> set p \<or> CHR ''['' \<in> set p)"

text \<open>
  What the libraries decide.
  \<^item> \<open>strftime k fmt\<close> is the text that the \<open>k\<close>-th call of \<^verbatim>\<open>time.strftime\<close> in one
    run returns for the format \<open>fmt\<close>.
  \<^item> \<open>array_error a\<close> is the exception of \<^verbatim>\<open>sitk.GetImageFromArray\<close> on the array
    \<open>a\<close> (an element type that SimpleITK does not take, say), \<open>None\<close> when it takes it;
    \<open>other_array a\<close> is its outcome on an array that is not a plane or a volume with
    no empty axis.
  \<^item> \<open>setter_error m v img\<close> is the exception that the geometry setter \<open>m\<close> raises for
    the value \<open>v\<close> (one of a wrong length, say), \<open>None\<close> when it accepts it.
  \<^item> \<open>WriteImage_result img p c fs\<close> is what \<^verbatim>\<open>sitk.WriteImage(img, p, c)\<close> does on
    the file system \<open>fs\<close>: the message of the RuntimeError it raises, or the file system
    it leaves (with one file or several, as the format has it).
  \<^item> \<open>Execute_error p\<close> is the message of the RuntimeError that the slice writer raises
    on the file \<open>p\<close>, \<open>None\<close> when it writes it; \<open>after_failure p fs\<close> is the file
    system that a failed write of \<open>p\<close> leaves.
  \<^item> \<open>str_float\<close> is \<^verbatim>\<open>str\<close> on a float, \<open>TransformIndexToPhysicalPoint\<close> the image's
    method, \<open>glob_magic\<close> what \<^verbatim>\<open>glob\<close> returns for a pattern whose directory part has
    wildcards of its own.
  \<^item> \<open>resample_sitk_image\<close> and \<open>DICOM_MODALITY_TAG\<close> are imported from
    \<^verbatim>\<open>fexp.readers\<close>, a module that is not among the sources: they are parameters.
\<close>

record world =
  strftime :: "nat \<Rightarrow> string \<Rightarrow> string"
  array_error :: "ndarray \<Rightarrow> exn option"
  other_array :: "ndarray \<Rightarrow> exn + sitk_image"
  setter_error :: "string \<Rightarrow> pyseq \<Rightarrow> sitk_image \<Rightarrow> exn option"
  WriteImage_result :: "sitk_image \<Rightarrow> string \<Rightarrow> bool \<Rightarrow> filesystem \<Rightarrow> string + filesystem"
  Execute_error :: "string \<Rightarrow> string option"
  after_failure :: "string \<Rightarrow> filesystem \<Rightarrow> filesystem"
  str_float :: "real \<Rightarrow> string"
  TransformIndexToPhysicalPoint :: "sitk_image \<Rightarrow> nat list \<Rightarrow> real list"
  glob_magic :: "filesystem \<Rightarrow> string \<Rightarrow> string list"
  resample_sitk_image :: "sitk_image \<Rightarrow> pyseq \<Rightarrow> exn + sitk_image"
  DICOM_MODALITY_TAG :: string

section \<open>The writer: \<^verbatim>\<open>write_image\<close>\<close>

subsection \<open>Lines 42 to 53: the image and its geometry\<close>

definition GetImageFromArray :: "world \<Rightarrow> ndarray \<Rightarrow> exn + sitk_image" where
  "GetImageFromArray w a =
     (case array_error w a of
        Some e \<Rightarrow> Inl e
      | None \<Rightarrow>
          if (ndim a = 2 \<or> ndim a = 3) \<and> 0 \<notin> set (shape a)
          then Inr \<lparr>GetSize = rev (shape a),
                    GetSpacing = replicate (ndim a) 1,
                    GetOrigin = replicate (ndim a) 0,
                    GetDirection = identity_direction (ndim a),
                    pixels = elems a\<rparr>
          else other_array w a)"

definition SetSpacing :: "world \<Rightarrow> pyseq \<Rightarrow> sitk_image \<Rightarrow> exn + sitk_image" where
  "SetSpacing w v img =
     (case setter_error w ''SetSpacing'' v img of
        Some e \<Rightarrow> Inl e
      | None \<Rightarrow> Inr (img\<lparr>GetSpacing := items v\<rparr>))"

definition SetOrigin :: "world \<Rightarrow> pyseq \<Rightarrow> sitk_image \<Rightarrow> exn + sitk_image" where
  "SetOrigin w v img =
     (case setter_error w ''SetOrigin'' v img of
        Some e \<Rightarrow> Inl e
      | None \<Rightarrow> Inr (img\<lparr>GetOrigin := items v\<rparr>))"

definition SetDirection :: "world \<Rightarrow> pyseq \<Rightarrow> sitk_image \<Rightarrow> exn + sitk_image" where
  "SetDirection w v img =
     (case setter_error w ''SetDirection'' v img of
        Some e \<Rightarrow> Inl e
      | None \<Rightarrow> Inr (img\<lparr>GetDirection := items v\<rparr>))"

text \<open>
  \<open>prepare_image\<close> is lines 42 to 53. \<^verbatim>\<open>metadata['spacing']\<close> is evaluated whatever
  \<^verbatim>\<open>metadata\<close> is: subscripting \<^verbatim>\<open>None\<close> raises TypeError, a missing key KeyError.
  \<^verbatim>\<open>metadata['orig_spacing']\<close> is read only when \<^verbatim>\<open>resample\<close> is true, and line 46
  compares the two values as Python does.
\<close>

definition set_origin_direction :: "world \<Rightarrow> metadata \<Rightarrow> sitk_image \<Rightarrow> exn + sitk_image" where
  "set_origin_direction w md img =
     (if truthy md then
        (case (case origin md of None \<Rightarrow> Inr img | Some v \<Rightarrow> SetOrigin w v img) of
           Inl e \<Rightarrow> Inl e
         | Inr img' \<Rightarrow>
             (case direction md of None \<Rightarrow> Inr img' | Some v \<Rightarrow> SetDirection w v img'))
      else Inr img)"

definition prepare_image ::
  "world \<Rightarrow> ndarray \<Rightarrow> metadata option \<Rightarrow> bool \<Rightarrow> exn + sitk_image" where
  "prepare_image w data metadata resample =
     (case GetImageFromArray w data of
        Inl e \<Rightarrow> Inl e
      | Inr img0 \<Rightarrow>
     (case metadata of
        None \<Rightarrow> Inl (TypeError (quoted ''NoneType'' @ '' object is not subscriptable''))
      | Some md \<Rightarrow>
     (case spacing md of
        None \<Rightarrow> Inl (KeyError ''spacing'')
      | Some sp \<Rightarrow>
     (case SetSpacing w sp img0 of
        Inl e \<Rightarrow> Inl e
      | Inr img1 \<Rightarrow>
     (case (if resample then
              (case orig_spacing md of
                 None \<Rightarrow> Inl (KeyError ''orig_spacing'')
               | Some osp \<Rightarrow>
                   if osp \<noteq> sp then resample_sitk_image w img1 osp else Inr img1)
            else Inr img1) of
        Inl e \<Rightarrow> Inl e
      | Inr img2 \<Rightarrow> set_origin_direction w md img2)))))"

subsection \<open>Lines 55 to 64: one file\<close>

definition possible_exts :: "string list" where
  "possible_exts = [''.nrrd'', ''.mhd'', ''.mha'', ''.nii'', ''.nii.gz'', ''.dcm'']"

text \<open>Line 55: \<^verbatim>\<open>any([_ in filepath.suffix for _ in possible_exts])\<close>.\<close>

definition known_ext :: "string \<Rightarrow> bool" where
  "known_ext filepath = list_ex (\<lambda>e. contains (path_suffix filepath) e) possible_exts"

text \<open>Line 57, the third argument: \<^verbatim>\<open>True if filepath.suffix == 'nii.gz' else compression\<close>.\<close>

definition use_compression :: "string \<Rightarrow> bool \<Rightarrow> bool" where
  "use_compression filepath compression =
     (if path_suffix filepath = ''nii.gz'' then True else compression)"

text \<open>
  The \<^verbatim>\<open>try\<close> of lines 56 to 64. The \<^verbatim>\<open>else\<close> of line 63 belongs to the outer
  \<^verbatim>\<open>if\<close>; the inner \<^verbatim>\<open>if\<close> of line 61 has no \<^verbatim>\<open>else\<close>, so the handler ends there
  and the function returns.
\<close>

definition single_file_write ::
  "world \<Rightarrow> sitk_image \<Rightarrow> string \<Rightarrow> bool \<Rightarrow> filesystem \<Rightarrow> exn option \<times> filesystem" where
  "single_file_write w img filepath compression fs =
     (case WriteImage_result w img filepath (use_compression filepath compression) fs of
        Inr fs' \<Rightarrow> (None, fs')
      | Inl error_str \<Rightarrow>
          if startswith error_str ''Exception thrown in SimpleITK WriteImage'' then
            (if contains error_str (''Write: Error writing '' @ filepath)
             then (Some (RuntimeError (''Cannot write to '' @ filepath @ ''.'')),
                   after_failure w filepath fs)
             else (None, after_failure w filepath fs))
          else (Some (RuntimeError error_str), after_failure w filepath fs))"

subsection \<open>Lines 66 to 113: a DICOM series\<close>

text \<open>
  Line 72: \<^verbatim>\<open>glob(os.path.join(filepath, 'IMG-*.dcm'))\<close> lists the entries of the
  directory whose names match and returns them joined to the directory; the series
  number is read from the whole of that text, \<^verbatim>\<open>int(_.split('-')[1])\<close>. A list
  comprehension stops at the first element that raises. The message of the ValueError
  of \<^verbatim>\<open>int\<close> quotes the text.
\<close>

definition glob_IMG :: "world \<Rightarrow> filesystem \<Rightarrow> string \<Rightarrow> string list" where
  "glob_IMG w fs filepath =
     (if has_magic filepath then glob_magic w fs filepath
      else map (os_path_join filepath)
             (filter (\<lambda>n. fnmatch n ''IMG-*.dcm'') (listdir fs filepath)))"

definition series_number :: "string \<Rightarrow> exn + int" where
  "series_number p =
     (case str_split CHR ''-'' p of
        _ # s # _ \<Rightarrow>
          (case py_int s of
             None \<Rightarrow> Inl (ValueError (''invalid literal for int() with base 10: '' @ s))
           | Some n \<Rightarrow> Inr n)
      | _ \<Rightarrow> Inl (IndexError ''list index out of range''))"

fun comprehension :: "('a \<Rightarrow> exn + 'b) \<Rightarrow> 'a list \<Rightarrow> exn + 'b list" where
  "comprehension f [] = Inr []"
| "comprehension f (x # xs) =
     (case f x of
        Inl e \<Rightarrow> Inl e
      | Inr y \<Rightarrow> (case comprehension f xs of Inl e \<Rightarrow> Inl e | Inr ys \<Rightarrow> Inr (y # ys)))"

definition series_in_directory :: "world \<Rightarrow> filesystem \<Rightarrow> string \<Rightarrow> exn + int list" where
  "series_in_directory w fs filepath = comprehension series_number (glob_IMG w fs filepath)"

text \<open>Line 73: \<^verbatim>\<open>0 if not series_in_directory else max(series_in_directory)\<close>.\<close>

definition curr_series :: "int list \<Rightarrow> int" where
  "curr_series ns = (if ns = [] then 0 else max_list ns)"

text \<open>
  Lines 75 to 92. The two calls of \<^verbatim>\<open>time.strftime\<close> are the first and the second of
  the run. \<^verbatim>\<open>direction[7]\<close> raises IndexError on a direction of fewer than eight
  entries, \<^verbatim>\<open>metadata.get\<close> AttributeError on \<^verbatim>\<open>None\<close>. The separator of the joined
  values is one backslash.
\<close>

definition backslash :: string where
  "backslash = [CHR 0x5C]"

definition series_tag_values ::
  "world \<Rightarrow> sitk_image \<Rightarrow> metadata option \<Rightarrow> int \<Rightarrow> exn + (string \<times> string) list" where
  "series_tag_values w img metadata series =
     (let modification_time = strftime w 0 ''%H%M%S'';
          modification_date = strftime w 1 ''%Y%m%d'';
          d = GetDirection img
      in if length d < 8 then Inl (IndexError ''tuple index out of range'')
         else case metadata of
           None \<Rightarrow>
             Inl (AttributeError
                    (quoted ''NoneType'' @ '' object has no attribute '' @ quoted ''get''))
         | Some md \<Rightarrow> Inr (
           [(''0008|0031'', modification_time),
            (''0008|0021'', modification_date),
            (''0008|0008'', ''DERIVED'' @ backslash @ ''SECONDARY''),
            (''0020|000e'',
               ''1.2.826.0.1.3680043.2.1125.'' @ modification_date @ ''.1'' @ modification_time),
            (''0020|0037'',
               str_join backslash
                 (map (str_float w) [d ! 0, d ! 3, d ! 6, d ! 1, d ! 4, d ! 7])),
            (''0008|103e'',
               (case series_description md of
                  Some v \<Rightarrow> v
                | None \<Rightarrow> ''fexp generated number: '' @ str_int series))]
           @ (case modality md of
                Some v \<Rightarrow> [(DICOM_MODALITY_TAG w, v)]
              | None \<Rightarrow> [])))"

text \<open>
  Lines 100 to 113, the body of the loop for the slice \<open>idx\<close>. The calls of
  \<^verbatim>\<open>time.strftime\<close> for slice \<open>idx\<close> are the calls \<open>2 + 2 * idx\<close> and \<open>3 + 2 * idx\<close>
  of the run. A RuntimeError of \<^verbatim>\<open>writer.Execute\<close> is not caught.
\<close>

definition slice_file_name :: "int \<Rightarrow> nat \<Rightarrow> string" where
  "slice_file_name series idx =
     ''IMG-'' @ format_03d series @ ''-'' @ format_03d (int idx) @ ''.dcm''"

definition slice_path :: "string \<Rightarrow> int \<Rightarrow> nat \<Rightarrow> string" where
  "slice_path filepath series idx = path_div filepath (slice_file_name series idx)"

definition tagged_slice ::
  "world \<Rightarrow> sitk_image \<Rightarrow> (string \<times> string) list \<Rightarrow> nat \<Rightarrow> image_slice" where
  "tagged_slice w img tags idx =
     (let s0 = extract_slice img idx;
          s1 = fold (\<lambda>(tag, v). SetMetaData tag v) tags s0;
          s2 = SetMetaData ''0008|0012'' (strftime w (2 + 2 * idx) ''%Y%m%d'') s1;
          s3 = SetMetaData ''0008|0013'' (strftime w (3 + 2 * idx) ''%H%M%S'') s2;
          s4 = SetMetaData ''0020|0032''
                 (str_join backslash
                    (map (str_float w) (TransformIndexToPhysicalPoint w img [0, 0, idx]))) s3
      in SetMetaData ''0020|0013'' (str_nat idx) s4)"

definition write_slice ::
  "world \<Rightarrow> sitk_image \<Rightarrow> (string \<times> string) list \<Rightarrow> string \<Rightarrow> int \<Rightarrow> bool \<Rightarrow>
   nat \<Rightarrow> filesystem \<Rightarrow> exn option \<times> filesystem" where
  "write_slice w img tags filepath series compression idx fs =
     (let p = slice_path filepath series idx
      in case Execute_error w p of
           Some msg \<Rightarrow> (Some (RuntimeError msg), after_failure w p fs)
         | None \<Rightarrow> (None, write_file p (Slice_file (tagged_slice w img tags idx) compression) fs))"

text \<open>The loop of line 99 over the indices it is given; an exception ends it.\<close>

fun write_slices ::
  "world \<Rightarrow> sitk_image \<Rightarrow> (string \<times> string) list \<Rightarrow> string \<Rightarrow> int \<Rightarrow> bool \<Rightarrow>
   nat list \<Rightarrow> filesystem \<Rightarrow> exn option \<times> filesystem" where
  "write_slices w img tags filepath series compression [] fs = (None, fs)"
| "write_slices w img tags filepath series compression (idx # rest) fs =
     (case write_slice w img tags filepath series compression idx fs of
        (Some e, fs') \<Rightarrow> (Some e, fs')
      | (None, fs') \<Rightarrow> write_slices w img tags filepath series compression rest fs')"

definition dicom_series_write ::
  "world \<Rightarrow> ndarray \<Rightarrow> sitk_image \<Rightarrow> metadata option \<Rightarrow> string \<Rightarrow> bool \<Rightarrow> filesystem \<Rightarrow>
   exn option \<times> filesystem" where
  "dicom_series_write w data img metadata filepath compression fs =
     (if ndim data \<noteq> 3 then
        (Some (ValueError (''For dicom series, only 3D data is supported. Got ''
                 @ str_nat (ndim data) @ ''.'')), fs)
      else
        (case series_in_directory w fs filepath of
           Inl e \<Rightarrow> (Some e, fs)
         | Inr ns \<Rightarrow>
             (case series_tag_values w img metadata (curr_series ns) of
                Inl e \<Rightarrow> (Some e, fs)
              | Inr tags \<Rightarrow>
                  write_slices w img tags filepath (curr_series ns) compression
                    [0..<GetDepth img] fs)))"

subsection \<open>The whole function\<close>

text \<open>
  \<open>write_image w data filepath compression metadata resample fs\<close> returns the exception
  raised, if any, and the file system it leaves. The message of the last error prints
  the list \<^verbatim>\<open>possible_exts\<close>.
\<close>

definition invalid_destination :: exn where
  "invalid_destination =
     ValueError (''Filename extension has to be one of ''
       @ ''['' @ str_join '', '' (map quoted possible_exts) @ '']'' @ '' or a directory.'')"

definition write_image ::
  "world \<Rightarrow> ndarray \<Rightarrow> string \<Rightarrow> bool \<Rightarrow> metadata option \<Rightarrow> bool \<Rightarrow> filesystem \<Rightarrow>
   exn option \<times> filesystem" where
  "write_image w data filepath compression metadata resample fs =
     (case prepare_image w data metadata resample of
        Inl e \<Rightarrow> (Some e, fs)
      | Inr img \<Rightarrow>
          if known_ext filepath then single_file_write w img filepath compression fs
          else if is_dir fs filepath then
            dicom_series_write w data img metadata filepath compression fs
          else (Some invalid_destination, fs))"

section \<open>The compositor: \<^verbatim>\<open>plot_2d\<close>\<close>

text \<open>
  \<^verbatim>\<open>plot_2d\<close> is a sequence of calls into matplotlib, numpy, skimage and PIL. The
  embedding lists these calls in the order of the program, each with the arguments that
  carry data, and runs them one after the other: a call raises when the parameter
  \<open>call_error\<close> says so, and that ends the run. The result is the exception, if any,
  and the calls that have returned.
\<close>

datatype array_like =
    Plain ndarray
  | Masked ndarray "bool list"

datatype call =
    Subplots nat nat
  | Subplots_adjust
  | Imshow array_like "string option" "real option" "(nat \<times> nat \<times> nat \<times> nat) option"
  | Set_adjustable
  | Find_contours ndarray
  | Plot "real list" "real list" string real
  | Add_patch_Rectangle "real \<times> real" real real string real
  | Masked_where ndarray real
  | Plot_points "real list" "real list" string
  | Set_axis_off
  | Set_major_locator string
  | Savefig nat
  | Close
  | Image_open

text \<open>
  \<^item> \<open>Subplots width height\<close> is line 69,
    \<^verbatim>\<open>plt.subplots(1, figsize=(width / dpi, height / dpi))\<close> with \<^verbatim>\<open>dpi = 100\<close>, and
    \<open>Subplots_adjust\<close> line 70.
  \<^item> \<open>Imshow a cmap alpha extent\<close> is \<^verbatim>\<open>ax.imshow\<close> (lines 82 and 169);
    \<open>Set_adjustable\<close> is line 83.
  \<^item> \<open>Find_contours m\<close> is \<^verbatim>\<open>skimage.measure.find_contours(m, 0.5)\<close>, and
    \<open>Plot xs ys color linewidth\<close> is line 149.
  \<^item> \<open>Add_patch_Rectangle xy w h color linewidth\<close> is the unfilled rectangle of
    \<^verbatim>\<open>add_2d_bbox\<close>.
  \<^item> \<open>Masked_where overlay threshold\<close> is line 167, the comparison and
    \<^verbatim>\<open>ma.masked_where\<close>.
  \<^item> \<open>Plot_points xs ys fmt\<close> is line 96; \<open>Set_axis_off\<close>, \<open>Set_major_locator\<close> of the
    x and of the y axis, \<open>Savefig dpi\<close>, \<open>Close\<close> and \<open>Image_open\<close> are lines 98 to 108.
\<close>

text \<open>
  What the libraries decide for the compositor. \<open>call_error c\<close> is the exception that the
  call \<open>c\<close> raises, \<open>None\<close> when it returns. \<open>find_contours m\<close> is what
  \<^verbatim>\<open>find_contours\<close> returns for the mask \<open>m\<close>: contours, each a list of (row, col)
  points. \<open>np_less d v t\<close> is the outcome of numpy's \<^verbatim>\<open><\<close> between an element \<open>v\<close> of
  an array of the element type \<open>d\<close> and the Python number \<open>t\<close>: numpy compares in the
  element type of the array, so it first rounds \<open>t\<close> to that type.
\<close>

record plot_world =
  call_error :: "call \<Rightarrow> exn option"
  find_contours :: "ndarray \<Rightarrow> (real \<times> real) list list"
  np_less :: "string \<Rightarrow> real \<Rightarrow> real \<Rightarrow> bool"

text \<open>The calls \<open>todo\<close> in turn after the calls \<open>made\<close>, until one raises.\<close>

fun run_calls :: "plot_world \<Rightarrow> call list \<Rightarrow> call list \<Rightarrow> exn option \<times> call list" where
  "run_calls pw made [] = (None, made)"
| "run_calls pw made (c # todo) =
     (case call_error pw c of
        Some e \<Rightarrow> (Some e, made)
      | None \<Rightarrow> run_calls pw (made @ [c]) todo)"

text \<open>\<^verbatim>\<open>image[..., 0]\<close> and \<^verbatim>\<open>image[0, ...]\<close>, used on an axis of extent one.\<close>

definition index_last0 :: "ndarray \<Rightarrow> ndarray" where
  "index_last0 a =
     a\<lparr>shape := butlast (shape a),
       elems := (let k = last (shape a)
                 in map (\<lambda>j. elems a ! (j * k)) [0..<length (elems a) div k])\<rparr>"

definition index_first0 :: "ndarray \<Rightarrow> ndarray" where
  "index_first0 a =
     a\<lparr>shape := tl (shape a), elems := take (prod_list (tl (shape a))) (elems a)\<rparr>"

text \<open>Lines 73 to 77, and lines 72, 79 and 80.\<close>

definition squeeze_channel :: "ndarray \<Rightarrow> ndarray" where
  "squeeze_channel img =
     (if ndim img = 3 then
        (if last (shape img) = 1 then index_last0 img
         else if hd (shape img) = 1 then index_first0 img
         else img)
      else img)"

definition cmap_of :: "ndarray \<Rightarrow> string option" where
  "cmap_of img = (if ndim img = 2 then Some ''gray'' else None)"

text \<open>\<^verbatim>\<open>add_2d_bbox\<close>: a box is (row, col, height, width).\<close>

definition add_2d_bbox :: "real \<times> real \<times> real \<times> real \<Rightarrow> real \<Rightarrow> string \<Rightarrow> call" where
  "add_2d_bbox bbox linewidth color =
     (case bbox of (row, col, h, w) \<Rightarrow> Add_patch_Rectangle (col, row) w h color linewidth)"

text \<open>\<^verbatim>\<open>add_2d_contours\<close>: one line per contour, columns first.\<close>

definition add_2d_contours :: "plot_world \<Rightarrow> ndarray \<Rightarrow> real \<Rightarrow> string \<Rightarrow> call list" where
  "add_2d_contours pw mask_arr linewidth color =
     Find_contours mask_arr
     # map (\<lambda>contour. Plot (map snd contour) (map fst contour) color linewidth)
         (find_contours pw mask_arr)"

text \<open>
  \<^verbatim>\<open>add_2d_overlay\<close>. Line 166 tests the truth value of \<^verbatim>\<open>threshold\<close>, and a number is
  true when it is not zero. \<^verbatim>\<open>ma.masked_where(overlay < threshold, overlay)\<close> masks the
  elements where numpy finds the condition true.
\<close>

definition masked_where :: "bool list \<Rightarrow> ndarray \<Rightarrow> array_like" where
  "masked_where condition a = Masked a condition"

definition add_2d_overlay :: "plot_world \<Rightarrow> ndarray \<Rightarrow> real \<Rightarrow> string \<Rightarrow> real \<Rightarrow> call list" where
  "add_2d_overlay pw overlay threshold cmap alpha =
     (if threshold \<noteq> 0
      then [Masked_where overlay threshold,
            Imshow
              (masked_where (map (\<lambda>v. np_less pw (dtype overlay) v threshold) (elems overlay))
                 overlay)
              (Some cmap) (Some alpha) None]
      else [Imshow (Plain overlay) (Some cmap) (Some alpha) None])"

text \<open>
  The calls of \<^verbatim>\<open>plot_2d\<close> in the order of lines 69 to 108, and the function: line 65
  reads \<^verbatim>\<open>image.shape[1]\<close> before any call.
\<close>

definition plot_2d_calls ::
  "plot_world \<Rightarrow> ndarray \<Rightarrow> ndarray option \<Rightarrow> (real \<times> real \<times> real \<times> real) list option \<Rightarrow>
   (real \<times> real) list option \<Rightarrow> ndarray option \<Rightarrow> real \<Rightarrow> string \<Rightarrow> string \<Rightarrow> string \<Rightarrow>
   string \<Rightarrow> real \<Rightarrow> real \<Rightarrow> call list" where
  "plot_2d_calls pw img mask_arr bboxes points overlay linewidth mask_color bbox_color
     points_color overlay_cmap overlay_threshold overlay_alpha =
     (let width = shape img ! 1;
          height = shape img ! 0;
          img' = squeeze_channel img
      in [Subplots width height,
          Subplots_adjust,
          Imshow (Plain img') (cmap_of img') None (Some (0, width, height, 0)),
          Set_adjustable]
         @ (case mask_arr of
              None \<Rightarrow> []
            | Some m \<Rightarrow> add_2d_contours pw m linewidth mask_color)
         @ (case bboxes of
              None \<Rightarrow> []
            | Some bs \<Rightarrow> map (\<lambda>bbox. add_2d_bbox bbox linewidth bbox_color) bs)
         @ (case overlay of
              None \<Rightarrow> []
            | Some ov \<Rightarrow> add_2d_overlay pw ov overlay_threshold overlay_cmap overlay_alpha)
         @ (case points of
              None \<Rightarrow> []
            | Some ps \<Rightarrow> [Plot_points (map snd ps) (map fst ps) (points_color @ ''.'')])
         @ [Set_axis_off, Set_major_locator ''x'', Set_major_locator ''y'',
            Savefig 100, Close, Image_open])"

definition plot_2d ::
  "plot_world \<Rightarrow> ndarray \<Rightarrow> ndarray option \<Rightarrow> (real \<times> real \<times> real \<times> real) list option \<Rightarrow>
   (real \<times> real) list option \<Rightarrow> ndarray option \<Rightarrow> real \<Rightarrow> string \<Rightarrow> string \<Rightarrow> string \<Rightarrow>
   string \<Rightarrow> real \<Rightarrow> real \<Rightarrow> exn option \<times> call list" where
  "plot_2d pw img mask_arr bboxes points overlay linewidth mask_color bbox_color
     points_color overlay_cmap overlay_threshold overlay_alpha =
     (if ndim img < 2 then (Some (IndexError ''tuple index out of range''), [])
      else run_calls pw []
             (plot_2d_calls pw img mask_arr bboxes points overlay linewidth mask_color
                bbox_color points_color overlay_cmap overlay_threshold overlay_alpha))"

section \<open>Observations and sample inputs\<close>

text \<open>
  What a call of \<^verbatim>\<open>imshow\<close> was given, and whether an element of it is masked.
\<close>

fun masked_at :: "array_like \<Rightarrow> nat \<Rightarrow> bool" where
  "masked_at (Plain a) i = False"
| "masked_at (Masked a m) i = (i < length m \<and> m ! i)"

fun array_data :: "array_like \<Rightarrow> ndarray" where
  "array_data (Plain a) = a"
| "array_data (Masked a m) = a"

text \<open>The value of a tag in the slice file at a path, if there is one.\<close>

definition file_tag :: "filesystem \<Rightarrow> string \<Rightarrow> string \<Rightarrow> string option" where
  "file_tag fs p tag =
     (case read_file fs p of
        Some (Slice_file sl c) \<Rightarrow> map_of (MetaData sl) tag
      | _ \<Rightarrow> None)"

text \<open>
  Inputs on which the theorems below are instantiated: a world in which every library
  call succeeds and the codec writes the file it is given, one in which the codec fails
  with a given message, a volume of two slices, and a file system that holds the empty
  directory \<^verbatim>\<open>out\<close>.
\<close>

definition sample_world :: world where
  "sample_world =
     \<lparr>strftime = (\<lambda>k fmt. if fmt = ''%H%M%S'' then ''120000'' else ''20200101''),
      array_error = (\<lambda>a. None),
      other_array = (\<lambda>a. Inl (RuntimeError ''unsupported array'')),
      setter_error = (\<lambda>m v img. None),
      WriteImage_result = (\<lambda>img p c fs. Inr (write_file p (Image_file img c) fs)),
      Execute_error = (\<lambda>p. None),
      after_failure = (\<lambda>p fs. fs),
      str_float = (\<lambda>x. if x = 0 then ''0.0'' else if x = 1 then ''1.0'' else ''2.0''),
      TransformIndexToPhysicalPoint = (\<lambda>img idx. map real idx),
      glob_magic = (\<lambda>fs p. []),
      resample_sitk_image = (\<lambda>img sp. Inr img),
      DICOM_MODALITY_TAG = ''0008|0060''\<rparr>"

definition failing_world :: "string \<Rightarrow> world" where
  "failing_world msg = sample_world\<lparr>WriteImage_result := (\<lambda>img p c fs. Inl msg)\<rparr>"

definition sample_metadata :: metadata where
  "sample_metadata =
     \<lparr>spacing = Some (Tuple [1, 1, 1]), orig_spacing = None, origin = None, direction = None,
      series_description = None, modality = None\<rparr>"

definition sample_volume :: ndarray where
  "sample_volume = \<lparr>dtype = ''int16'', shape = [2, 1, 2], elems = [1, 2, 3, 4]\<rparr>"

definition other_volume :: ndarray where
  "other_volume = \<lparr>dtype = ''int16'', shape = [1, 1, 2], elems = [5, 6]\<rparr>"

definition sample_plane :: ndarray where
  "sample_plane = \<lparr>dtype = ''int16'', shape = [1, 2], elems = [1, 2]\<rparr>"

definition directory_out :: filesystem where
  "directory_out = \<lparr>dirs = [''out''], files = []\<rparr>"

definition series_000 :: filesystem where
  "series_000 =
     snd (write_image sample_world sample_volume ''out'' True (Some sample_metadata) False
            directory_out)"

text \<open>
  For the writer: the image that lines 42 to 53 build from the sample volume, the
  metadata of a plane, a directory whose name ends like a volume file, and two messages
  of the codec: the one of an unwritable NRRD file, which line 61 looks for, and one of
  another kind.
\<close>

definition sample_image :: sitk_image where
  "sample_image =
     \<lparr>GetSize = [2, 1, 2], GetSpacing = [1, 1, 1], GetOrigin = [0, 0, 0],
      GetDirection = [1, 0, 0, 0, 1, 0, 0, 0, 1], pixels = [1, 2, 3, 4]\<rparr>"

definition plane_image :: sitk_image where
  "plane_image =
     \<lparr>GetSize = [2, 1], GetSpacing = [1, 1], GetOrigin = [0, 0],
      GetDirection = [1, 0, 0, 1], pixels = [1, 2]\<rparr>"

definition plane_metadata :: metadata where
  "plane_metadata = sample_metadata\<lparr>spacing := Some (Tuple [1, 1])\<rparr>"

definition directory_named :: "string \<Rightarrow> filesystem" where
  "directory_named d = \<lparr>dirs = [d], files = []\<rparr>"

definition unwritable_message :: "string \<Rightarrow> string" where
  "unwritable_message p =
     ''Exception thrown in SimpleITK WriteImage: NrrdImageIO: Write: Error writing '' @ p"

definition swallowed_message :: string where
  "swallowed_message =
     ''Exception thrown in SimpleITK WriteImage: Unable to determine ImageIO writer''"

text \<open>
  For the compositor: a world in which no call raises and numpy compares a float64 array
  exactly and a float32 array after rounding the threshold to float32. \<open>to_float32\<close> is
  that rounding for a number from 1/2 up to 1, where a float32 is a multiple of
  \<open>2 ^ - 24\<close>. \<open>float64_0_7\<close> is the Python float \<^verbatim>\<open>0.7\<close> and \<open>float32_0_7\<close> the
  float32 nearest to it.
\<close>

definition to_float32 :: "real \<Rightarrow> real" where
  "to_float32 t = of_int (round (t * 2 ^ 24)) / 2 ^ 24"

definition sample_plot_world :: plot_world where
  "sample_plot_world =
     \<lparr>call_error = (\<lambda>c. None),
      find_contours = (\<lambda>m. []),
      np_less = (\<lambda>d v t. if d = ''float32'' then v < to_float32 t else v < t)\<rparr>"

definition float64_0_7 :: real where
  "float64_0_7 = 3152519739159347 / 4503599627370496"

definition float32_0_7 :: real where
  "float32_0_7 = 11744051 / 16777216"

definition signed_overlay :: ndarray where
  "signed_overlay = \<lparr>dtype = ''float64'', shape = [1, 2], elems = [- 1, 1 / 2]\<rparr>"

definition float32_overlay :: ndarray where
  "float32_overlay = \<lparr>dtype = ''float32'', shape = [1, 1], elems = [float32_0_7]\<rparr>"

definition trailing_channel :: ndarray where
  "trailing_channel = \<lparr>dtype = ''uint8'', shape = [2, 2, 1], elems = [1, 2, 3, 4]\<rparr>"

definition leading_channel :: ndarray where
  "leading_channel = \<lparr>dtype = ''uint8'', shape = [1, 2, 2], elems = [1, 2, 3, 4]\<rparr>"

definition colour_image :: ndarray where
  "colour_image = \<lparr>dtype = ''uint8'', shape = [2, 1, 3], elems = [1, 0, 0, 0, 1, 0]\<rparr>"

section \<open>Lemmas\<close>

subsection \<open>Numbers as text\<close>

lemma of_char_digit_char:
  assumes "n < 10"
  shows "(of_char (digit_char n) :: nat) = 48 + n"
proof -
  have "''0123456789'' = map (\<lambda>k. char_of (48 + k)) [0..<10]"
    by code_simp
  then have "digit_char n = char_of (48 + n)"
    using assms by (simp add: digit_char_def del: upt_Suc)
  with assms show ?thesis by simp
qed

lemma digit_char_props:
  assumes "n < 10"
  shows "is_digit (digit_char n)" and "digit_val (digit_char n) = n"
  using of_char_digit_char [OF assms] assms by (simp_all add: is_digit_def digit_val_def)

lemma digits_value_snoc:
  "is_digit c \<Longrightarrow> digits_value (xs @ [c]) = 10 * digits_value xs + digit_val c"
  by (simp add: digits_value_def)

lemma digits_value_str_nat: "digits_value (str_nat n) = n"
proof (induction n rule: str_nat.induct)
  case (1 n)
  show ?case
  proof (cases "n < 10")
    case True
    then show ?thesis
      by (subst str_nat.simps) (simp add: digits_value_def digit_char_props)
  next
    case False
    have d: "is_digit (digit_char (n mod 10))"
      by (simp add: digit_char_props)
    have "digits_value (str_nat n) = 10 * digits_value (str_nat (n div 10)) + n mod 10"
      using False by (subst str_nat.simps) (simp add: digits_value_snoc [OF d] digit_char_props)
    with 1 False show ?thesis by simp
  qed
qed

lemma digits_value_zeros:
  "digits_value (replicate k CHR ''0'' @ s) = digits_value s"
proof (induction k)
  case 0
  show ?case by simp
next
  case (Suc k)
  have "digits_value (CHR ''0'' # replicate k CHR ''0'' @ s) =
        digits_value (replicate k CHR ''0'' @ s)"
    by (simp add: digits_value_def is_digit_def digit_val_def)
  with Suc show ?case by simp
qed

lemma digits_value_format_03d: "digits_value (format_03d (int n)) = n"
  by (simp add: format_03d_def zfill_def digits_value_zeros digits_value_str_nat)

lemma format_03d_inj: "format_03d (int i) = format_03d (int j) \<Longrightarrow> i = j"
  by (metis digits_value_format_03d)

lemma slice_file_name_inj: "slice_file_name s i = slice_file_name s j \<Longrightarrow> i = j"
  by (simp add: slice_file_name_def format_03d_inj)

lemma path_div_inj: "path_div d a = path_div d b \<Longrightarrow> a = b"
  by (simp add: path_div_def split: if_splits)

lemma length_str_nat_pos: "Suc 0 \<le> length (str_nat n)"
  by (subst str_nat.simps) simp

lemma length_str_nat_3: "3 \<le> length (str_nat n) \<longleftrightarrow> 100 \<le> n"
proof (cases "n < 10")
  case True
  then show ?thesis by (subst str_nat.simps) simp
next
  case False
  show ?thesis
  proof (cases "n < 100")
    case True
    with False have "n div 10 < 10" by simp
    then have "length (str_nat (n div 10)) = 1"
      by (subst str_nat.simps) simp
    with False True show ?thesis by (subst str_nat.simps) simp
  next
    case False
    then have a: "\<not> n < 10" and b: "\<not> n div 10 < 10" by simp_all
    have "length (str_nat n) = length (str_nat (n div 10)) + 1"
      using a by (subst str_nat.simps) simp
    also have "\<dots> = length (str_nat (n div 10 div 10)) + 2"
      using b by (subst str_nat.simps) simp
    finally show ?thesis using False length_str_nat_pos [of "n div 10 div 10"] by simp
  qed
qed

lemma str_nat_eq_format_03d: "str_nat n = format_03d (int n) \<longleftrightarrow> 100 \<le> n"
proof -
  have "str_nat n = replicate (3 - length (str_nat n)) CHR ''0'' @ str_nat n
        \<longleftrightarrow> 3 - length (str_nat n) = 0"
    by (metis append_self_conv2 length_0_conv length_replicate replicate_empty)
  then show ?thesis
    using length_str_nat_3 [of n] by (simp add: format_03d_def zfill_def)
qed

subsection \<open>Files written by the loop\<close>

lemma read_file_write_file:
  "read_file (write_file p c fs) q = (if q = p then Some c else read_file fs q)"
  by (simp add: read_file_def write_file_def update_conv')

lemma dirs_write_file: "dirs (write_file p c fs) = dirs fs"
  by (simp add: write_file_def)

lemma paths_write_file:
  "set (map fst (files (write_file p c fs))) = insert p (set (map fst (files fs)))"
  by (simp add: write_file_def dom_update)

lemma write_slices_success:
  assumes "\<forall>i\<in>set idxs. Execute_error w (slice_path filepath s i) = None"
  shows "write_slices w img tags filepath s c idxs fs =
         (None, fold (\<lambda>i. write_file (slice_path filepath s i)
                              (Slice_file (tagged_slice w img tags i) c)) idxs fs)"
  using assms
proof (induction idxs arbitrary: fs)
  case Nil
  show ?case by simp
next
  case (Cons i idxs)
  then show ?case by (simp add: write_slice_def)
qed

lemma dirs_fold_write: "dirs (fold (\<lambda>i. write_file (f i) (g i)) idxs fs) = dirs fs"
  by (induction idxs arbitrary: fs) (simp_all add: dirs_write_file)

lemma paths_fold_write:
  "set (map fst (files (fold (\<lambda>i. write_file (f i) (g i)) idxs fs))) =
   set (map fst (files fs)) \<union> f ` set idxs"
proof (induction idxs arbitrary: fs)
  case Nil
  show ?case by simp
next
  case (Cons i idxs)
  show ?case
    unfolding fold_simps Cons.IH paths_write_file by auto
qed

lemma read_fold_write_other:
  "p \<notin> f ` set idxs \<Longrightarrow>
   read_file (fold (\<lambda>i. write_file (f i) (g i)) idxs fs) p = read_file fs p"
  by (induction idxs arbitrary: fs) (simp_all add: read_file_write_file)

lemma read_fold_write_slice:
  assumes "inj_on f (set idxs)" and "i \<in> set idxs"
  shows "read_file (fold (\<lambda>i. write_file (f i) (g i)) idxs fs) (f i) = Some (g i)"
  using assms
proof (induction idxs arbitrary: fs)
  case Nil
  then show ?case by simp
next
  case (Cons j idxs)
  show ?case
  proof (cases "i \<in> set idxs")
    case True
    with Cons show ?thesis by simp
  next
    case False
    with Cons.prems have ij: "i = j" by simp
    from Cons.prems False ij have "f i \<notin> f ` set idxs"
      by (auto simp: inj_on_def)
    then show ?thesis
      using ij by (simp add: read_fold_write_other read_file_write_file)
  qed
qed

lemma slice_path_inj: "inj_on (slice_path filepath s) A"
  by (auto simp: inj_on_def slice_path_def dest: path_div_inj slice_file_name_inj)

lemma set_map_filter: "set (List.map_filter f xs) = {y. \<exists>x\<in>set xs. f x = Some y}"
  by (induction xs) (auto split: option.splits)

lemma set_listdir:
  "set (listdir fs d) =
   {n. \<exists>p \<in> set (map fst (files fs)) \<union> set (dirs fs). child_name d p = Some n}"
  by (auto simp: listdir_def set_map_filter)

lemma no_slash_str_nat: "CHR ''/'' \<notin> set (str_nat n)"
proof (induction n rule: str_nat.induct)
  case (1 n)
  have d: "digit_char k \<noteq> CHR ''/''" if "k < 10" for k
    using digit_char_props(1) [OF that] by (auto simp: is_digit_def)
  show ?case
  proof (cases "n < 10")
    case True
    then show ?thesis using d [of n] by (subst str_nat.simps) auto
  next
    case False
    then show ?thesis using 1 d [of "n mod 10"] by (subst str_nat.simps) auto
  qed
qed

lemma no_slash_format_03d: "CHR ''/'' \<notin> set (format_03d i)"
  by (auto simp: format_03d_def zfill_def no_slash_str_nat)

lemma child_name_path_div:
  assumes "n \<noteq> []" and "CHR ''/'' \<notin> set n"
  shows "child_name d (path_div d n) = Some n"
proof (cases "d = ''.''")
  case True
  with assms show ?thesis by (simp add: child_name_def path_div_def)
next
  case False
  define pre where "pre = (if endswith d ''/'' then d else d @ ''/'')"
  have p: "path_div d n = pre @ n"
    using False by (simp add: path_div_def pre_def)
  have "child_name d (pre @ n) =
        (if startswith (pre @ n) pre \<and> drop (length pre) (pre @ n) \<noteq> []
            \<and> CHR ''/'' \<notin> set (drop (length pre) (pre @ n))
         then Some (drop (length pre) (pre @ n)) else None)"
    using False unfolding child_name_def pre_def Let_def by (simp only: if_False)
  with assms p show ?thesis by (simp add: startswith_def)
qed

lemma slice_file_name_child:
  "child_name d (slice_path d s i) = Some (slice_file_name s i)"
  unfolding slice_path_def
  by (rule child_name_path_div) (simp_all add: slice_file_name_def no_slash_format_03d)

lemma listdir_after_slices:
  "set (listdir (fold (\<lambda>i. write_file (slice_path d s i) (g i)) idxs fs) d) =
   set (listdir fs d) \<union> slice_file_name s ` set idxs"
proof -
  have "slice_file_name s i \<in>
        {n. \<exists>p\<in>set (map fst (files fs)) \<union> slice_path d s ` set idxs \<union> set (dirs fs).
              child_name d p = Some n}" if "i \<in> set idxs" for i
    using that slice_file_name_child [of d s i] by blast
  then show ?thesis
    unfolding set_listdir paths_fold_write dirs_fold_write
    by (auto simp: slice_file_name_child)
qed

lemma prepare_image_metadata:
  "prepare_image w data metadata resample = Inr img \<Longrightarrow> \<exists>md. metadata = Some md"
  by (cases metadata) (simp_all add: prepare_image_def split: sum.splits)

lemma set_origin_direction_size:
  "set_origin_direction w md img = Inr img' \<Longrightarrow>
   GetSize img' = GetSize img \<and> pixels img' = pixels img"
  by (auto simp: set_origin_direction_def SetOrigin_def SetDirection_def
      split: if_splits option.splits sum.splits)

lemma prepare_image_plain:
  assumes "prepare_image w data metadata False = Inr img"
    and "ndim data = 3" and "0 \<notin> set (shape data)"
  shows "GetSize img = rev (shape data) \<and> pixels img = elems data"
proof -
  from assms(1) obtain md where md: "metadata = Some md"
    using prepare_image_metadata by blast
  from assms(1) obtain img0 where g: "GetImageFromArray w data = Inr img0"
    unfolding prepare_image_def by (auto split: sum.splits)
  with assms(2,3) have i0: "GetSize img0 = rev (shape data) \<and> pixels img0 = elems data"
    by (auto simp: GetImageFromArray_def split: option.splits)
  from assms(1) obtain sp img1 where "SetSpacing w sp img0 = Inr img1"
    and so: "set_origin_direction w md img1 = Inr img"
    unfolding prepare_image_def md g
    by (auto split: option.splits sum.splits)
  with i0 have "GetSize img1 = rev (shape data) \<and> pixels img1 = elems data"
    by (auto simp: SetSpacing_def split: option.splits)
  with set_origin_direction_size [OF so] show ?thesis by simp
qed

lemma run_calls_prefix:
  "run_calls pw made todo = (e, done) \<Longrightarrow> \<exists>k \<le> length todo. done = made @ take k todo"
proof (induction todo arbitrary: made)
  case Nil
  then show ?case by simp
next
  case (Cons c todo)
  show ?case
  proof (cases "call_error pw c")
    case None
    with Cons.prems have "run_calls pw (made @ [c]) todo = (e, done)" by simp
    from Cons.IH [OF this] obtain k where "k \<le> length todo" "done = (made @ [c]) @ take k todo"
      by blast
    then have "Suc k \<le> length (c # todo) \<and> done = made @ take (Suc k) (c # todo)" by simp
    then show ?thesis by blast
  next
    case (Some x)
    with Cons.prems have "done = made @ take 0 (c # todo)" by simp
    then show ?thesis by blast
  qed
qed

lemma run_calls_nth:
  assumes "run_calls pw [] todo = (e, done)" and "i < length done"
  shows "done ! i = todo ! i"
proof -
  from run_calls_prefix [OF assms(1)] obtain k where "done = take k todo" by auto
  with assms(2) show ?thesis by simp
qed

lemma run_calls_all:
  assumes "run_calls pw made todo = (None, done)"
  shows "done = made @ todo"
  using assms
proof (induction todo arbitrary: made)
  case Nil
  then show ?case by simp
next
  case (Cons c todo)
  show ?case
  proof (cases "call_error pw c")
    case None
    with Cons.prems have "run_calls pw (made @ [c]) todo = (None, done)" by simp
    from Cons.IH [OF this] show ?thesis by simp
  next
    case (Some x)
    with Cons.prems show ?thesis by simp
  qed
qed

lemma plot_2d_nth:
  assumes "i < length (snd (plot_2d pw img m bboxes points ov lw mc bc pc oc ot oa))"
  shows "snd (plot_2d pw img m bboxes points ov lw mc bc pc oc ot oa) ! i =
         plot_2d_calls pw img m bboxes points ov lw mc bc pc oc ot oa ! i"
proof (cases "ndim img < 2")
  case True
  with assms show ?thesis by (simp add: plot_2d_def)
next
  case False
  then have "plot_2d pw img m bboxes points ov lw mc bc pc oc ot oa =
      run_calls pw [] (plot_2d_calls pw img m bboxes points ov lw mc bc pc oc ot oa)"
    by (simp add: plot_2d_def)
  with assms show ?thesis
    by (metis prod.collapse run_calls_nth)
qed

lemma plot_2d_all:
  assumes "fst (plot_2d pw img m bboxes points ov lw mc bc pc oc ot oa) = None"
  shows "snd (plot_2d pw img m bboxes points ov lw mc bc pc oc ot oa) =
         plot_2d_calls pw img m bboxes points ov lw mc bc pc oc ot oa"
proof (cases "ndim img < 2")
  case True
  with assms show ?thesis by (simp add: plot_2d_def)
next
  case False
  then have "plot_2d pw img m bboxes points ov lw mc bc pc oc ot oa =
      run_calls pw [] (plot_2d_calls pw img m bboxes points ov lw mc bc pc oc ot oa)"
    by (simp add: plot_2d_def)
  with assms show ?thesis
    by (metis append_Nil prod.collapse run_calls_all)
qed

lemma index_last0_singleton:
  assumes "last (shape a) = 1"
  shows "elems (index_last0 a) = elems a"
  using assms by (simp add: index_last0_def map_nth)

lemma index_first0_singleton:
  assumes "hd (shape a) = 1" and "shape a \<noteq> []" and "length (elems a) = prod_list (shape a)"
  shows "elems (index_first0 a) = elems a"
proof -
  from assms(2) obtain d ds where s: "shape a = d # ds" by (cases "shape a") auto
  with assms show ?thesis by (simp add: index_first0_def)
qed

lemma squeeze_channel_singleton:
  assumes "ndim a = 3" and "last (shape a) = 1 \<or> hd (shape a) = 1"
  shows "ndim (squeeze_channel a) = 2"
    and "shape (squeeze_channel a) =
           (if last (shape a) = 1 then butlast (shape a) else tl (shape a))"
    and "length (elems a) = prod_list (shape a) \<Longrightarrow> elems (squeeze_channel a) = elems a"
    and "dtype (squeeze_channel a) = dtype a"
proof -
  from assms(1) have ne: "shape a \<noteq> []" by (auto simp: ndim_def)
  show "ndim (squeeze_channel a) = 2"
    using assms by (auto simp: squeeze_channel_def ndim_def index_last0_def index_first0_def)
  show "shape (squeeze_channel a) =
           (if last (shape a) = 1 then butlast (shape a) else tl (shape a))"
    using assms by (auto simp: squeeze_channel_def index_last0_def index_first0_def)
  show "elems (squeeze_channel a) = elems a" if "length (elems a) = prod_list (shape a)"
    using assms that ne
    by (auto simp: squeeze_channel_def index_last0_singleton index_first0_singleton)
  show "dtype (squeeze_channel a) = dtype a"
    by (auto simp: squeeze_channel_def index_last0_def index_first0_def)
qed

lemma to_float32_0_7: "to_float32 float64_0_7 = float32_0_7"
proof -
  have "(3152519739159347 / 4503599627370496 :: real) * 2 ^ 24 = 3152519739159347 / 268435456"
    by simp
  moreover have "round (3152519739159347 / 268435456 :: real) = 11744051"
    by (simp add: round_def)
  ultimately have "round ((3152519739159347 / 4503599627370496 :: real) * 2 ^ 24) = 11744051"
    by (simp only:)
  then show ?thesis
    by (simp only: to_float32_def float32_0_7_def float64_0_7_def) simp
qed

lemma contains_decompose: "contains s sub \<Longrightarrow> \<exists>pre post. s = pre @ sub @ post"
proof (induction s)
  case Nil
  then show ?case by simp
next
  case (Cons c cs)
  show ?case
  proof (cases "startswith (c # cs) sub")
    case True
    then have "c # cs = [] @ sub @ drop (length sub) (c # cs)"
      by (metis append_Nil append_take_drop_id startswith_def)
    then show ?thesis by blast
  next
    case False
    with Cons.prems have "contains cs sub" by simp
    from Cons.IH [OF this] obtain pre post where "cs = pre @ sub @ post" by blast
    then have "c # cs = (c # pre) @ sub @ post" by simp
    then show ?thesis by blast
  qed
qed

lemma path_suffix_cases:
  "path_suffix p = [] \<or>
   (\<exists>ext. path_suffix p = CHR ''.'' # ext \<and> CHR ''.'' \<notin> set ext)"
proof -
  have "CHR ''.'' \<notin> set (rev (takeWhile (\<lambda>c. c \<noteq> CHR ''.'') (rev (path_name p))))"
    using set_takeWhileD by fastforce
  then show ?thesis
    by (auto simp: path_suffix_def Let_def)
qed

lemma use_compression_id: "use_compression filepath compression = compression"
  using path_suffix_cases [of filepath] by (auto simp: use_compression_def)

lemma path_suffix_no_nii_gz: "\<not> contains (path_suffix p) ''.nii.gz''"
proof
  assume "contains (path_suffix p) ''.nii.gz''"
  from contains_decompose [OF this] obtain pre post
    where d: "path_suffix p = pre @ ''.nii.gz'' @ post" by blast
  from path_suffix_cases [of p] d obtain ext
    where e: "pre @ ''.nii.gz'' @ post = CHR ''.'' # ext" and n: "CHR ''.'' \<notin> set ext"
    by auto
  show False
  proof (cases pre)
    case Nil
    with e have "ext = ''nii.gz'' @ post" by simp
    with n show False by simp
  next
    case (Cons c cs)
    with e have "ext = cs @ ''.nii.gz'' @ post" by simp
    with n show False by simp
  qed
qed

lemma known_ext_iff:
  "known_ext p \<longleftrightarrow>
   (contains (path_suffix p) ''.nrrd'' \<or> contains (path_suffix p) ''.mhd'' \<or>
    contains (path_suffix p) ''.mha'' \<or> contains (path_suffix p) ''.nii'' \<or>
    contains (path_suffix p) ''.dcm'')"
  using path_suffix_no_nii_gz [of p] by (auto simp: known_ext_def possible_exts_def)

lemma series_tag_values_ok:
  assumes "8 \<le> length (GetDirection img)"
  shows "\<exists>tags. series_tag_values w img (Some md) s = Inr tags"
  using assms by (simp add: series_tag_values_def Let_def)

lemma series_write:
  assumes prep: "prepare_image w data metadata resample = Inr img"
    and vol: "ndim data = 3"
    and dir: "8 \<le> length (GetDirection img)"
    and dest: "\<not> known_ext filepath" "is_dir fs filepath"
    and scan: "series_in_directory w fs filepath = Inr ns"
    and codec: "\<forall>i<GetDepth img. Execute_error w (slice_path filepath (curr_series ns) i) = None"
  shows "\<exists>tags. series_tag_values w img metadata (curr_series ns) = Inr tags \<and>
           write_image w data filepath compression metadata resample fs =
           (None, fold (\<lambda>i. write_file (slice_path filepath (curr_series ns) i)
                               (Slice_file (tagged_slice w img tags i) compression))
                    [0..<GetDepth img] fs)"
proof -
  from prep obtain md where md: "metadata = Some md"
    using prepare_image_metadata by blast
  from series_tag_values_ok [OF dir, of w md "curr_series ns"] obtain tags
    where tags: "series_tag_values w img metadata (curr_series ns) = Inr tags"
    unfolding md by blast
  from codec have c: "\<forall>i\<in>set [0..<GetDepth img].
      Execute_error w (slice_path filepath (curr_series ns) i) = None"
    by simp
  have "write_image w data filepath compression metadata resample fs =
        write_slices w img tags filepath (curr_series ns) compression [0..<GetDepth img] fs"
    using prep vol dest scan tags
    by (simp add: write_image_def dicom_series_write_def)
  with write_slices_success [OF c, of img tags compression fs] tags show ?thesis
    by simp
qed

lemma instance_number_tag:
  "map_of (MetaData (tagged_slice w img tags i)) ''0020|0013'' = Some (str_nat i)"
  by (simp add: tagged_slice_def Let_def SetMetaData_def update_conv')

lemma slice_pixels_tagged:
  "slice_pixels (tagged_slice w img tags i) =
   take (GetSize img ! 0 * GetSize img ! 1) (drop (i * (GetSize img ! 0 * GetSize img ! 1)) (pixels img))"
proof -
  have f: "slice_pixels (fold (\<lambda>(tag, v). SetMetaData tag v) ts s) = slice_pixels s" for ts s
    by (induction ts arbitrary: s) (auto simp: SetMetaData_def)
  show ?thesis
    by (simp add: tagged_slice_def Let_def SetMetaData_def f extract_slice_def)
qed

lemma simple_path_div:
  assumes "simple_path p"
  shows "path_div p n = p @ ''/'' @ n"
proof -
  from assms have ne: "p \<noteq> []" and nd: "p \<noteq> ''.''"
    by (auto simp: simple_path_def startswith_def)
  have "\<not> endswith p ''/''"
  proof
    assume "endswith p ''/''"
    then obtain q where q: "p = q @ ''/''"
      by (metis append_take_drop_id endswith_def)
    have l: "[] \<in> set (tl (str_split CHR ''/'' (xs @ ''/'')))" for xs
    proof (induction xs)
      case Nil
      show ?case by simp
    next
      case (Cons a xs)
      then show ?case
        by (cases "str_split CHR ''/'' (xs @ ''/'')") (auto dest: list.set_sel(2))
    qed
    let ?r = "if startswith p ''/'' then tl p else p"
    have "?r = [] \<or> (\<exists>xs. ?r = xs @ ''/'')"
      using q by (cases q) (auto simp: startswith_def)
    then have "[] \<in> set (str_split CHR ''/'' ?r)"
    proof
      assume "?r = []"
      then show ?thesis by simp
    next
      assume "\<exists>xs. ?r = xs @ ''/''"
      then obtain xs where "?r = xs @ ''/''" by blast
      with l [of xs] show ?thesis
        by (metis list.set_sel(2) list.sel(2) empty_iff empty_set)
    qed
    with assms show False
      by (auto simp: simple_path_def list_all_iff)
  qed
  with nd show ?thesis by (simp add: path_div_def)
qed

lemma digit_not_space: "is_digit c \<Longrightarrow> \<not> is_space c"
  by (auto simp: is_digit_def is_space_def)

lemma digit_not_sign: "is_digit c \<Longrightarrow> c \<noteq> CHR ''-'' \<and> c \<noteq> CHR ''+'' \<and> c \<noteq> CHR ''_''"
  by (auto simp: is_digit_def)

lemma all_digits_str_nat: "list_all is_digit (str_nat n)"
proof (induction n rule: str_nat.induct)
  case (1 n)
  show ?case
  proof (cases "n < 10")
    case True
    then show ?thesis by (subst str_nat.simps) (simp add: digit_char_props)
  next
    case False
    with 1 show ?thesis by (subst str_nat.simps) (simp add: digit_char_props)
  qed
qed

lemma digits_ok_all: "s \<noteq> [] \<Longrightarrow> list_all is_digit s \<Longrightarrow> digits_ok s"
proof (induction s rule: digits_ok.induct)
  case 1
  then show ?case by simp
next
  case (2 c)
  then show ?case by simp
next
  case (3 c d cs)
  then show ?case using digit_not_sign [of d] by simp
qed

lemma strip_digits:
  assumes "s \<noteq> []" and "list_all is_digit s"
  shows "strip s = s"
proof -
  from assms have h: "\<not> is_space (hd s)" and l: "\<not> is_space (last s)"
    by (auto simp: list_all_iff digit_not_space)
  from assms(1) h have "dropWhile is_space s = s"
    by (cases s) simp_all
  moreover from assms(1) l have "dropWhile is_space (rev s) = rev s"
    by (cases "rev s") (simp_all add: last_rev [symmetric] del: last_rev)
  ultimately show ?thesis by (simp add: strip_def)
qed

lemma py_int_digits:
  assumes "s \<noteq> []" and "list_all is_digit s"
  shows "py_int s = Some (int (digits_value s))"
proof -
  from assms have "is_digit (hd s)" by (cases s) simp_all
  then have "hd s \<noteq> CHR ''-''" "hd s \<noteq> CHR ''+''"
    using digit_not_sign by blast+
  then show ?thesis
    using assms by (simp add: py_int_def strip_digits digits_ok_all Let_def)
qed

lemma py_int_str_nat: "py_int (str_nat n) = Some (int n)"
proof -
  have "str_nat n \<noteq> []" using length_str_nat_pos [of n] by auto
  then show ?thesis
    by (simp add: py_int_digits all_digits_str_nat digits_value_str_nat)
qed

lemma py_int_format_03d: "py_int (format_03d (int n)) = Some (int n)"
proof -
  have z: "is_digit CHR ''0''" by (simp add: is_digit_def)
  have "str_nat n \<noteq> []" using length_str_nat_pos [of n] by auto
  then have "format_03d (int n) \<noteq> []" by (simp add: format_03d_def zfill_def)
  moreover have "list_all is_digit (format_03d (int n))"
    using all_digits_str_nat [of n] z by (auto simp: format_03d_def zfill_def list_all_iff)
  ultimately show ?thesis
    using py_int_digits digits_value_format_03d by simp
qed

lemma sample_prepare:
  "prepare_image sample_world sample_volume (Some sample_metadata) False = Inr sample_image"
  by code_simp

lemma glob_empty_directory:
  assumes "\<not> has_magic filepath" and "listdir fs filepath = []"
  shows "series_in_directory w fs filepath = Inr []"
  using assms by (simp add: series_in_directory_def glob_IMG_def)

lemma format_03d_zero: "format_03d 0 = ''000''"
  by code_simp

lemma not_known_ext_invalid:
  assumes "prepare_image w data metadata resample = Inr img"
    and "\<not> known_ext filepath" and "\<not> is_dir fs filepath"
  shows "write_image w data filepath compression metadata resample fs =
         (Some invalid_destination, fs)"
  using assms by (simp add: write_image_def)

lemma known_ext_single:
  assumes "prepare_image w data metadata resample = Inr img"
    and "known_ext filepath"
    and "WriteImage_result w img filepath compression fs = Inr fs'"
  shows "write_image w data filepath compression metadata resample fs = (None, fs')"
  using assms by (simp add: write_image_def single_file_write_def use_compression_id)

lemma known_ext_no_validation:
  assumes "prepare_image w data metadata resample = Inr img" and "known_ext filepath"
  shows "fst (write_image w data filepath compression metadata resample fs) \<noteq>
         Some (ValueError m)"
  using assms
  by (auto simp: write_image_def single_file_write_def split: sum.splits if_splits)

section \<open>The claims\<close>

text \<open>
  Claim C1: the series number of a write is the largest one found in the directory plus
  one, so that a second write makes the series 001 and leaves the series 000 alone.
  Line 73 takes the largest number found and adds nothing. The run below writes the
  sample volume into the empty directory \<^verbatim>\<open>out\<close>, which gives the two files of series
  000, and then another volume of one slice into the same directory: the scan finds the
  series 0, the second write uses 000 again, no file of a series 001 appears, and the
  file \<^verbatim>\<open>IMG-000-000.dcm\<close> of the first write is overwritten.
\<close>

theorem second_write_reuses_series_number:
  "listdir series_000 ''out'' = [''IMG-000-000.dcm'', ''IMG-000-001.dcm''] \<and>
   series_in_directory sample_world series_000 ''out'' = Inr [0, 0] \<and>
   curr_series [0, 0] = 0 \<and>
   fst (write_image sample_world other_volume ''out'' True (Some sample_metadata) False
          series_000) = None \<and>
   listdir (snd (write_image sample_world other_volume ''out'' True (Some sample_metadata) False
                   series_000)) ''out'' = [''IMG-000-000.dcm'', ''IMG-000-001.dcm''] \<and>
   read_file (snd (write_image sample_world other_volume ''out'' True (Some sample_metadata)
                     False series_000)) ''out/IMG-000-000.dcm''
     \<noteq> read_file series_000 ''out/IMG-000-000.dcm''"
  by code_simp

text \<open>
  Claim C2, as amended. Once the image is built, the destination decides in this order.
  A path whose suffix contains one of \<^verbatim>\<open>.nrrd .mhd .mha .nii .dcm\<close> goes to the codec
  for volumes: \<^verbatim>\<open>sitk.WriteImage\<close> is called on the image with the path and the
  caller's compression flag, and when it returns, \<^verbatim>\<open>write_image\<close> returns with the
  file system the codec left. Any other path that is an existing directory gets a DICOM
  series: with a volume, a readable directory and a slice writer that raises nothing,
  one slice file per slice. Any other path raises the error of line 115 and nothing is
  written. Paths that end in \<^verbatim>\<open>.nii.gz\<close> are left out of the last two cases. As the
  claim was stated it fails: the path \<^verbatim>\<open>scan.dcm\<close>, which is not a directory, is
  written as one file.
\<close>

theorem destination_resolution:
  assumes "simple_path filepath"
    and "prepare_image w data metadata resample = Inr img"
  shows "(known_ext filepath \<longleftrightarrow>
            contains (path_suffix filepath) ''.nrrd'' \<or> contains (path_suffix filepath) ''.mhd'' \<or>
            contains (path_suffix filepath) ''.mha'' \<or> contains (path_suffix filepath) ''.nii'' \<or>
            contains (path_suffix filepath) ''.dcm'') \<and>
         (known_ext filepath \<longrightarrow>
            (\<forall>fs'. WriteImage_result w img filepath compression fs = Inr fs' \<longrightarrow>
               write_image w data filepath compression metadata resample fs = (None, fs'))) \<and>
         (\<not> known_ext filepath \<and> \<not> endswith filepath ''.nii.gz'' \<and> is_dir fs filepath \<and>
          ndim data = 3 \<and> GetDimension img = 3 \<and> length (GetDirection img) = 9 \<longrightarrow>
            (\<forall>ns. series_in_directory w fs filepath = Inr ns \<and>
               (\<forall>i<GetDepth img.
                  Execute_error w (slice_path filepath (curr_series ns) i) = None) \<longrightarrow>
               fst (write_image w data filepath compression metadata resample fs) = None \<and>
               (\<forall>i<GetDepth img. \<exists>sl.
                  read_file (snd (write_image w data filepath compression metadata resample fs))
                    (filepath @ ''/IMG-'' @ format_03d (curr_series ns) @ ''-''
                       @ format_03d (int i) @ ''.dcm'')
                    = Some (Slice_file sl compression)))) \<and>
         (\<not> known_ext filepath \<and> \<not> endswith filepath ''.nii.gz'' \<and> \<not> is_dir fs filepath \<longrightarrow>
            write_image w data filepath compression metadata resample fs
              = (Some invalid_destination, fs))"
proof (intro conjI impI allI)
  show "known_ext filepath \<longleftrightarrow>
            contains (path_suffix filepath) ''.nrrd'' \<or> contains (path_suffix filepath) ''.mhd'' \<or>
            contains (path_suffix filepath) ''.mha'' \<or> contains (path_suffix filepath) ''.nii'' \<or>
            contains (path_suffix filepath) ''.dcm''"
    by (rule known_ext_iff)
next
  fix fs'
  assume "known_ext filepath" "WriteImage_result w img filepath compression fs = Inr fs'"
  with assms(2) show "write_image w data filepath compression metadata resample fs = (None, fs')"
    by (rule known_ext_single)
next
  fix ns
  assume a: "\<not> known_ext filepath \<and> \<not> endswith filepath ''.nii.gz'' \<and> is_dir fs filepath \<and>
          ndim data = 3 \<and> GetDimension img = 3 \<and> length (GetDirection img) = 9"
    and b: "series_in_directory w fs filepath = Inr ns \<and>
               (\<forall>i<GetDepth img.
                  Execute_error w (slice_path filepath (curr_series ns) i) = None)"
  from a have d8: "8 \<le> length (GetDirection img)" by simp
  from a b series_write [OF assms(2) _ d8, of filepath fs ns compression]
  obtain tags where
    r: "write_image w data filepath compression metadata resample fs =
        (None, fold (\<lambda>i. write_file (slice_path filepath (curr_series ns) i)
                            (Slice_file (tagged_slice w img tags i) compression))
                 [0..<GetDepth img] fs)"
    by blast
  then show "fst (write_image w data filepath compression metadata resample fs) = None"
    by simp
  fix i
  assume i: "i < GetDepth img"
  have p: "slice_path filepath (curr_series ns) i =
           filepath @ ''/IMG-'' @ format_03d (curr_series ns) @ ''-'' @ format_03d (int i)
             @ ''.dcm''"
    by (simp add: slice_path_def simple_path_div [OF assms(1)] slice_file_name_def)
  have "read_file (snd (write_image w data filepath compression metadata resample fs))
            (slice_path filepath (curr_series ns) i) =
          Some (Slice_file (tagged_slice w img tags i) compression)"
    unfolding r snd_conv
    by (rule read_fold_write_slice) (use i in \<open>simp_all add: slice_path_inj\<close>)
  then show "\<exists>sl. read_file (snd (write_image w data filepath compression metadata resample fs))
                    (filepath @ ''/IMG-'' @ format_03d (curr_series ns) @ ''-''
                       @ format_03d (int i) @ ''.dcm'')
                    = Some (Slice_file sl compression)"
    by (simp add: p)
next
  assume "\<not> known_ext filepath \<and> \<not> endswith filepath ''.nii.gz'' \<and> \<not> is_dir fs filepath"
  with assms(2) show "write_image w data filepath compression metadata resample fs
              = (Some invalid_destination, fs)"
    by (simp add: not_known_ext_invalid)
qed

theorem destination_resolution_witness:
  "simple_path ''vol.nii'' \<and> simple_path ''out'' \<and> simple_path ''vol.txt'' \<and>
   prepare_image sample_world sample_volume (Some sample_metadata) False = Inr sample_image \<and>
   known_ext ''vol.nii'' \<and>
   write_image sample_world sample_volume ''vol.nii'' True (Some sample_metadata) False
     directory_out = (None, write_file ''vol.nii'' (Image_file sample_image True) directory_out) \<and>
   \<not> known_ext ''out'' \<and> is_dir directory_out ''out'' \<and>
   fst (write_image sample_world sample_volume ''out'' True (Some sample_metadata) False
          directory_out) = None \<and>
   (\<exists>sl. read_file (snd (write_image sample_world sample_volume ''out'' True
                           (Some sample_metadata) False directory_out))
            ''out/IMG-000-001.dcm'' = Some (Slice_file sl True)) \<and>
   \<not> known_ext ''vol.txt'' \<and> \<not> is_dir directory_out ''vol.txt'' \<and>
   write_image sample_world sample_volume ''vol.txt'' True (Some sample_metadata) False
     directory_out = (Some invalid_destination, directory_out)"
proof -
  have s1: "simple_path ''vol.nii''" and s2: "simple_path ''out''"
    and s3: "simple_path ''vol.txt''"
    by code_simp+
  have k1: "known_ext ''vol.nii''" and k2: "\<not> known_ext ''out''"
    and k3: "\<not> known_ext ''vol.txt''"
    by code_simp+
  have e2: "\<not> endswith ''out'' ''.nii.gz''" and e3: "\<not> endswith ''vol.txt'' ''.nii.gz''"
    by code_simp+
  have d2: "is_dir directory_out ''out''" and d3: "\<not> is_dir directory_out ''vol.txt''"
    by code_simp+
  have w1: "WriteImage_result sample_world sample_image ''vol.nii'' True directory_out =
            Inr (write_file ''vol.nii'' (Image_file sample_image True) directory_out)"
    by (simp add: sample_world_def)
  have n: "ndim sample_volume = 3" and g: "GetDimension sample_image = 3"
    and l: "length (GetDirection sample_image) = 9" and depth: "GetDepth sample_image = 2"
    by code_simp+
  have c: "series_in_directory sample_world directory_out ''out'' = Inr []" by code_simp
  have x: "\<forall>i<GetDepth sample_image.
      Execute_error sample_world (slice_path ''out'' (curr_series []) i) = None"
    by (simp add: sample_world_def)
  have t: "''out'' @ ''/IMG-'' @ format_03d (curr_series []) @ ''-'' @ format_03d (int 1)
             @ ''.dcm'' = ''out/IMG-000-001.dcm''"
    by code_simp
  from destination_resolution [OF s1 sample_prepare, where compression = True and fs = directory_out] k1 w1
  have a: "write_image sample_world sample_volume ''vol.nii'' True (Some sample_metadata) False
     directory_out = (None, write_file ''vol.nii'' (Image_file sample_image True) directory_out)"
    by blast
  from destination_resolution [OF s2 sample_prepare, where compression = True and fs = directory_out] k2 e2 d2 n g l c x
  have b: "fst (write_image sample_world sample_volume ''out'' True (Some sample_metadata) False
          directory_out) = None \<and>
        (\<forall>i<GetDepth sample_image. \<exists>sl.
           read_file (snd (write_image sample_world sample_volume ''out'' True
                            (Some sample_metadata) False directory_out))
             (''out'' @ ''/IMG-'' @ format_03d (curr_series []) @ ''-'' @ format_03d (int i)
                @ ''.dcm'') = Some (Slice_file sl True))"
    by blast
  then have "1 < GetDepth sample_image \<longrightarrow> (\<exists>sl.
           read_file (snd (write_image sample_world sample_volume ''out'' True
                            (Some sample_metadata) False directory_out))
             (''out'' @ ''/IMG-'' @ format_03d (curr_series []) @ ''-'' @ format_03d (int 1)
                @ ''.dcm'') = Some (Slice_file sl True))"
    by blast
  moreover have "1 < GetDepth sample_image" by (simp add: depth)
  ultimately have "\<exists>sl.
           read_file (snd (write_image sample_world sample_volume ''out'' True
                            (Some sample_metadata) False directory_out))
             (''out'' @ ''/IMG-'' @ format_03d (curr_series []) @ ''-'' @ format_03d (int 1)
                @ ''.dcm'') = Some (Slice_file sl True)"
    by blast
  then have b2: "\<exists>sl.
           read_file (snd (write_image sample_world sample_volume ''out'' True
                            (Some sample_metadata) False directory_out))
             ''out/IMG-000-001.dcm'' = Some (Slice_file sl True)"
    unfolding t .
  from destination_resolution [OF s3 sample_prepare, where compression = True and fs = directory_out] k3 e3 d3
  have c3: "write_image sample_world sample_volume ''vol.txt'' True (Some sample_metadata) False
     directory_out = (Some invalid_destination, directory_out)"
    by blast
  from s1 s2 s3 sample_prepare k1 a k2 d2 b b2 k3 d3 c3 show ?thesis by blast
qed

theorem dcm_file_destination_counterexample:
  "simple_path ''scan.dcm'' \<and>
   \<not> is_dir directory_out ''scan.dcm'' \<and>
   path_suffix ''scan.dcm'' = ''.dcm'' \<and>
   write_image sample_world sample_plane ''scan.dcm'' True (Some plane_metadata) False
     directory_out = (None, write_file ''scan.dcm'' (Image_file plane_image True) directory_out)"
  by code_simp

text \<open>
  Claim C3: every error of the codec is either turned into the error
  \<^verbatim>\<open>Cannot write to <path>.\<close> or passed on. The handler of lines 58 to 64 has a third
  outcome: a message that starts with \<^verbatim>\<open>Exception thrown in SimpleITK WriteImage\<close> and
  does not contain \<^verbatim>\<open>Write: Error writing <path>\<close> falls through both tests, and
  \<^verbatim>\<open>write_image\<close> returns as if the file had been written.
\<close>

theorem codec_error_swallowed:
  assumes "prepare_image w data metadata resample = Inr img"
    and "known_ext filepath"
    and "WriteImage_result w img filepath compression fs = Inl msg"
    and "startswith msg ''Exception thrown in SimpleITK WriteImage''"
    and "\<not> contains msg (''Write: Error writing '' @ filepath)"
  shows "fst (write_image w data filepath compression metadata resample fs) = None"
  using assms
  by (simp add: write_image_def single_file_write_def use_compression_id)

theorem codec_error_swallowed_witness:
  "known_ext ''vol.niix'' \<and>
   WriteImage_result (failing_world swallowed_message) sample_image ''vol.niix'' True
     directory_out = Inl swallowed_message \<and>
   write_image (failing_world swallowed_message) sample_volume ''vol.niix'' True
     (Some sample_metadata) False directory_out = (None, directory_out)"
proof -
  have p: "prepare_image (failing_world swallowed_message) sample_volume (Some sample_metadata)
             False = Inr sample_image"
    by code_simp
  have k: "known_ext ''vol.niix''" by code_simp
  have r: "WriteImage_result (failing_world swallowed_message) sample_image ''vol.niix'' True
             directory_out = Inl swallowed_message"
    by (simp add: failing_world_def)
  have s: "startswith swallowed_message ''Exception thrown in SimpleITK WriteImage''"
    by code_simp
  have c: "\<not> contains swallowed_message (''Write: Error writing '' @ ''vol.niix'')"
    by code_simp
  have "snd (write_image (failing_world swallowed_message) sample_volume ''vol.niix'' True
     (Some sample_metadata) False directory_out) = directory_out"
    by code_simp
  with codec_error_swallowed [OF p k r s c] k r show ?thesis
    by (simp add: prod_eq_iff)
qed

text \<open>
  Claim C4: a target that ends in \<^verbatim>\<open>.nii.gz\<close> is written with compression whatever
  the caller asked for. Line 57 compares the suffix with \<^verbatim>\<open>nii.gz\<close>, and no suffix is
  that text (a suffix starts with a dot and holds no other), so the flag handed to the
  codec is always the caller's. And the suffix of such a target is \<^verbatim>\<open>.gz\<close>, in which
  line 55 finds none of its extensions: the target \<^verbatim>\<open>vol.nii.gz\<close> is refused with the
  error of line 115.
\<close>

theorem nii_gz_compression_not_forced:
  "use_compression filepath compression = compression \<and>
   path_suffix ''vol.nii.gz'' = ''.gz'' \<and>
   \<not> known_ext ''vol.nii.gz'' \<and>
   write_image sample_world sample_volume ''vol.nii.gz'' False (Some sample_metadata) False
     directory_out = (Some invalid_destination, directory_out)"
proof -
  have "path_suffix ''vol.nii.gz'' = ''.gz''" by code_simp
  moreover have "\<not> known_ext ''vol.nii.gz''" by code_simp
  moreover have "write_image sample_world sample_volume ''vol.nii.gz'' False
      (Some sample_metadata) False directory_out = (Some invalid_destination, directory_out)"
    by code_simp
  ultimately show ?thesis by (simp add: use_compression_id)
qed

text \<open>
  Claim C5, as amended. A call whose destination is an existing directory, with a
  suffix in which line 55 finds none of its extensions, and whose array does not have
  three axes raises an error and leaves the file system as it was. The error is the
  ValueError of line 70 whenever lines 42 to 53 have built the image; otherwise it is
  the exception of those lines. As the claim was stated it fails: for a directory
  named \<^verbatim>\<open>out.nrrd\<close> the test of line 55 comes first, the codec is asked to write the
  plane there, and the error is the codec's.
\<close>

theorem non_3d_series_rejected:
  assumes "simple_path filepath" and "is_dir fs filepath" and "\<not> known_ext filepath"
    and "ndim data \<noteq> 3"
  shows "\<exists>e. write_image w data filepath compression metadata resample fs = (Some e, fs) \<and>
             (\<forall>img. prepare_image w data metadata resample = Inr img \<longrightarrow>
                e = ValueError (''For dicom series, only 3D data is supported. Got ''
                      @ str_nat (ndim data) @ ''.''))"
proof (cases "prepare_image w data metadata resample")
  case (Inl e)
  then show ?thesis by (simp add: write_image_def)
next
  case (Inr img)
  with assms show ?thesis by (simp add: write_image_def dicom_series_write_def)
qed

theorem non_3d_series_rejected_witness:
  "simple_path ''out'' \<and> is_dir directory_out ''out'' \<and> \<not> known_ext ''out'' \<and>
   ndim sample_plane \<noteq> 3 \<and>
   write_image sample_world sample_plane ''out'' True (Some plane_metadata) False directory_out =
     (Some (ValueError ''For dicom series, only 3D data is supported. Got 2.''), directory_out)"
proof -
  have s: "simple_path ''out''" by code_simp
  have d: "is_dir directory_out ''out''" by code_simp
  have k: "\<not> known_ext ''out''" by code_simp
  have n: "ndim sample_plane \<noteq> 3" by code_simp
  have p: "prepare_image sample_world sample_plane (Some plane_metadata) False =
      Inr \<lparr>GetSize = [2, 1], GetSpacing = [1, 1], GetOrigin = [0, 0],
           GetDirection = [1, 0, 0, 1], pixels = [1, 2]\<rparr>"
    by code_simp
  have m: "''For dicom series, only 3D data is supported. Got '' @ str_nat (ndim sample_plane)
             @ ''.'' = ''For dicom series, only 3D data is supported. Got 2.''"
    by code_simp
  from non_3d_series_rejected [OF s d k n, of sample_world True "Some plane_metadata" False]
  obtain e where
    "write_image sample_world sample_plane ''out'' True (Some plane_metadata) False directory_out
       = (Some e, directory_out)"
    and "\<forall>img. prepare_image sample_world sample_plane (Some plane_metadata) False = Inr img \<longrightarrow>
           e = ValueError (''For dicom series, only 3D data is supported. Got ''
                 @ str_nat (ndim sample_plane) @ ''.'')"
    by blast
  with p m s d k n show ?thesis by simp
qed

theorem non_3d_named_like_file_counterexample:
  "is_dir (directory_named ''out.nrrd'') ''out.nrrd'' \<and>
   ndim sample_plane = 2 \<and>
   write_image (failing_world (unwritable_message ''out.nrrd'')) sample_plane ''out.nrrd'' True
     (Some plane_metadata) False (directory_named ''out.nrrd'') =
     (Some (RuntimeError ''Cannot write to out.nrrd.''), directory_named ''out.nrrd'')"
  by code_simp

text \<open>
  Claim C6, as amended. In a series that is written without an error, the file of the
  slice \<open>i\<close> carries the tag 0020|0013 with the value \<^verbatim>\<open>str(i)\<close>, the decimal digits
  of \<open>i\<close> with no padding. The file name holds the same index padded with zeros to three
  digits; the two texts are the same exactly from \<open>i = 100\<close> on, and both read as the
  number \<open>i\<close>. As the claim was stated it fails: the first slice has the instance
  number \<^verbatim>\<open>0\<close> and the index \<^verbatim>\<open>000\<close> in its name.
\<close>

theorem instance_number_is_plain_decimal:
  assumes "simple_path filepath"
    and "prepare_image w data metadata resample = Inr img"
    and "ndim data = 3"
    and "GetDimension img = 3" and "length (GetDirection img) = 9"
    and "\<not> known_ext filepath" and "is_dir fs filepath"
    and "series_in_directory w fs filepath = Inr ns"
    and "\<forall>i<GetDepth img. Execute_error w (slice_path filepath (curr_series ns) i) = None"
  shows "fst (write_image w data filepath compression metadata resample fs) = None \<and>
         (\<forall>i<GetDepth img.
            file_tag (snd (write_image w data filepath compression metadata resample fs))
              (filepath @ ''/IMG-'' @ format_03d (curr_series ns) @ ''-'' @ format_03d (int i)
                 @ ''.dcm'')
              ''0020|0013'' = Some (str_nat i) \<and>
            (str_nat i = format_03d (int i)) = (100 \<le> i) \<and>
            py_int (str_nat i) = Some (int i) \<and>
            py_int (format_03d (int i)) = Some (int i))"
proof -
  from assms(5) have d: "8 \<le> length (GetDirection img)" by simp
  from series_write [OF assms(2,3) d assms(6,7,8,9), of compression]
  obtain tags where
    r: "write_image w data filepath compression metadata resample fs =
        (None, fold (\<lambda>i. write_file (slice_path filepath (curr_series ns) i)
                            (Slice_file (tagged_slice w img tags i) compression))
                 [0..<GetDepth img] fs)"
    by blast
  have p: "slice_path filepath (curr_series ns) i =
           filepath @ ''/IMG-'' @ format_03d (curr_series ns) @ ''-'' @ format_03d (int i)
             @ ''.dcm''" for i
    by (simp add: slice_path_def simple_path_div [OF assms(1)] slice_file_name_def)
  have "file_tag (snd (write_image w data filepath compression metadata resample fs))
          (slice_path filepath (curr_series ns) i) ''0020|0013'' = Some (str_nat i)"
    if "i < GetDepth img" for i
  proof -
    have "read_file (snd (write_image w data filepath compression metadata resample fs))
            (slice_path filepath (curr_series ns) i) =
          Some (Slice_file (tagged_slice w img tags i) compression)"
      unfolding r snd_conv
      by (rule read_fold_write_slice) (use that in \<open>simp_all add: slice_path_inj\<close>)
    then show ?thesis by (simp add: file_tag_def instance_number_tag)
  qed
  then show ?thesis
    using r p by (simp add: str_nat_eq_format_03d py_int_str_nat py_int_format_03d)
qed

theorem instance_number_is_plain_decimal_witness:
  "simple_path ''out'' \<and>
   prepare_image sample_world sample_volume (Some sample_metadata) False = Inr sample_image \<and>
   ndim sample_volume = 3 \<and> GetDimension sample_image = 3 \<and>
   length (GetDirection sample_image) = 9 \<and> \<not> known_ext ''out'' \<and>
   is_dir directory_out ''out'' \<and>
   series_in_directory sample_world directory_out ''out'' = Inr [] \<and>
   GetDepth sample_image = 2 \<and>
   file_tag (snd (write_image sample_world sample_volume ''out'' True (Some sample_metadata)
                    False directory_out)) ''out/IMG-000-001.dcm'' ''0020|0013'' = Some ''1'' \<and>
   format_03d 1 = ''001''"
proof -
  have s: "simple_path ''out''" by code_simp
  have n: "ndim sample_volume = 3" by code_simp
  have g: "GetDimension sample_image = 3" by code_simp
  have l: "length (GetDirection sample_image) = 9" by code_simp
  have k: "\<not> known_ext ''out''" by code_simp
  have d: "is_dir directory_out ''out''" by code_simp
  have c: "series_in_directory sample_world directory_out ''out'' = Inr []" by code_simp
  have e: "\<forall>i<GetDepth sample_image.
      Execute_error sample_world (slice_path ''out'' (curr_series []) i) = None"
    by (simp add: sample_world_def)
  have depth: "GetDepth sample_image = 2" by code_simp
  have t: "''out'' @ ''/IMG-'' @ format_03d (curr_series []) @ ''-'' @ format_03d (int 1)
             @ ''.dcm'' = ''out/IMG-000-001.dcm''"
    by code_simp
  have u: "str_nat 1 = ''1''" by code_simp
  have f: "format_03d 1 = ''001''" by code_simp
  from instance_number_is_plain_decimal [OF s sample_prepare n g l k d c e, of True]
  have "\<forall>i<GetDepth sample_image.
          file_tag (snd (write_image sample_world sample_volume ''out'' True
                          (Some sample_metadata) False directory_out))
          (''out'' @ ''/IMG-'' @ format_03d (curr_series []) @ ''-'' @ format_03d (int i)
             @ ''.dcm'') ''0020|0013'' = Some (str_nat i)"
    by blast
  then have "1 < GetDepth sample_image \<longrightarrow>
          file_tag (snd (write_image sample_world sample_volume ''out'' True
                          (Some sample_metadata) False directory_out))
          (''out'' @ ''/IMG-'' @ format_03d (curr_series []) @ ''-'' @ format_03d (int 1)
             @ ''.dcm'') ''0020|0013'' = Some (str_nat 1)"
    by (rule spec)
  then have "file_tag (snd (write_image sample_world sample_volume ''out'' True
                          (Some sample_metadata) False directory_out))
          (''out'' @ ''/IMG-'' @ format_03d (curr_series []) @ ''-'' @ format_03d (int 1)
             @ ''.dcm'') ''0020|0013'' = Some (str_nat 1)"
    using depth by simp
  with t u s sample_prepare n g l k d c depth f show ?thesis by simp
qed

theorem instance_number_zero_padded_counterexample:
  "file_tag series_000 ''out/IMG-000-000.dcm'' ''0020|0013'' = Some ''0'' \<and>
   format_03d 0 = ''000''"
  by code_simp

text \<open>
  Claim C7, as amended. Let the array have the shape (D, H, W) with no empty axis, let
  lines 42 to 53 build the image without resampling, let the destination be an
  existing, empty directory with a suffix in which line 55 finds none of its
  extensions (and with no wildcard of \<^verbatim>\<open>glob\<close> in its path), and let the slice writer
  raise nothing. Then \<^verbatim>\<open>write_image\<close> returns normally and the directory holds exactly
  the D entries \<^verbatim>\<open>IMG-000-000.dcm\<close> to \<^verbatim>\<open>IMG-000-<D-1>.dcm\<close>, the index padded to three
  digits; the file of index \<open>i\<close> holds the \<open>i\<close>-th slice along the first axis, and
  every other file is as it was. As the claim was stated it fails: for an empty
  directory named \<^verbatim>\<open>series.nrrd\<close> the codec for volumes is asked to write there, and
  no slice file is made.
\<close>

theorem series_written_to_empty_directory:
  assumes "simple_path filepath" and "\<not> has_magic filepath"
    and "is_dir fs filepath" and "\<not> known_ext filepath" and "listdir fs filepath = []"
    and "shape data = [D, H, W]" and "0 < D" and "0 < H" and "0 < W"
    and "prepare_image w data metadata False = Inr img"
    and "length (GetDirection img) = 9"
    and "\<forall>i<D. Execute_error w (slice_path filepath 0 i) = None"
  shows "fst (write_image w data filepath compression metadata False fs) = None \<and>
         dirs (snd (write_image w data filepath compression metadata False fs)) = dirs fs \<and>
         set (listdir (snd (write_image w data filepath compression metadata False fs)) filepath)
           = (\<lambda>i. ''IMG-000-'' @ format_03d (int i) @ ''.dcm'') ` {..<D} \<and>
         card ((\<lambda>i. ''IMG-000-'' @ format_03d (int i) @ ''.dcm'') ` {..<D}) = D \<and>
         (\<forall>i<D. \<exists>sl.
            read_file (snd (write_image w data filepath compression metadata False fs))
              (filepath @ ''/IMG-000-'' @ format_03d (int i) @ ''.dcm'')
              = Some (Slice_file sl compression) \<and>
            slice_pixels sl = take (H * W) (drop (i * (H * W)) (elems data))) \<and>
         (\<forall>p. p \<notin> (\<lambda>i. filepath @ ''/IMG-000-'' @ format_03d (int i) @ ''.dcm'') ` {..<D} \<longrightarrow>
            read_file (snd (write_image w data filepath compression metadata False fs)) p
              = read_file fs p)"
proof -
  let ?r = "write_image w data filepath compression metadata False fs"
  let ?name = "\<lambda>i. ''IMG-000-'' @ format_03d (int i) @ ''.dcm''"
  let ?path = "\<lambda>i. filepath @ ''/IMG-000-'' @ format_03d (int i) @ ''.dcm''"
  from assms(6-9) have nd: "ndim data = 3" and nz: "0 \<notin> set (shape data)"
    by (simp_all add: ndim_def)
  from prepare_image_plain [OF assms(10) nd nz] assms(6)
  have size: "GetSize img = [W, H, D]" and pix: "pixels img = elems data" by simp_all
  then have depth: "GetDepth img = D" by (simp add: GetDepth_def GetDimension_def)
  have scan: "series_in_directory w fs filepath = Inr []"
    using assms(2,5) by (rule glob_empty_directory)
  have cs: "curr_series [] = 0" by (simp add: curr_series_def)
  from assms(11) have d8: "8 \<le> length (GetDirection img)" by simp
  have codec: "\<forall>i<GetDepth img. Execute_error w (slice_path filepath (curr_series []) i) = None"
    using assms(12) depth cs by simp
  from series_write [OF assms(10) nd d8 assms(4,3) scan codec, of compression]
  obtain tags where
    r: "?r = (None, fold (\<lambda>i. write_file (slice_path filepath 0 i)
                            (Slice_file (tagged_slice w img tags i) compression)) [0..<D] fs)"
    unfolding depth cs by blast
  have nm: "slice_file_name 0 i = ?name i" for i
    by (simp add: slice_file_name_def format_03d_zero)
  have pt: "slice_path filepath 0 i = ?path i" for i
    by (simp add: slice_path_def simple_path_div [OF assms(1)] nm)
  have inj: "inj_on ?name {..<D}"
    by (auto simp: inj_on_def dest: format_03d_inj)
  have 1: "fst ?r = None" by (simp add: r)
  have 2: "dirs (snd ?r) = dirs fs" by (simp add: r dirs_fold_write)
  have "set (listdir (snd ?r) filepath) = set (listdir fs filepath) \<union> slice_file_name 0 ` set [0..<D]"
    unfolding r snd_conv by (rule listdir_after_slices)
  then have 3: "set (listdir (snd ?r) filepath) = ?name ` {..<D}"
    using assms(5) nm by (auto simp: image_iff)
  have 4: "card (?name ` {..<D}) = D"
    using inj by (simp add: card_image)
  have 5: "\<exists>sl. read_file (snd ?r) (?path i) = Some (Slice_file sl compression) \<and>
             slice_pixels sl = take (H * W) (drop (i * (H * W)) (elems data))" if "i < D" for i
  proof -
    have "read_file (snd ?r) (slice_path filepath 0 i) =
          Some (Slice_file (tagged_slice w img tags i) compression)"
      unfolding r snd_conv
      by (rule read_fold_write_slice) (use that in \<open>simp_all add: slice_path_inj\<close>)
    moreover have "slice_pixels (tagged_slice w img tags i) =
          take (H * W) (drop (i * (H * W)) (elems data))"
      by (simp add: slice_pixels_tagged size pix mult.commute)
    ultimately show ?thesis by (simp add: pt)
  qed
  have 6: "read_file (snd ?r) p = read_file fs p" if "p \<notin> ?path ` {..<D}" for p
  proof -
    from that have "p \<notin> slice_path filepath 0 ` set [0..<D]"
      by (auto simp: pt)
    then show ?thesis
      unfolding r snd_conv by (rule read_fold_write_other)
  qed
  from 1 2 3 4 5 6 show ?thesis by blast
qed

theorem series_written_to_empty_directory_witness:
  "simple_path ''out'' \<and> \<not> has_magic ''out'' \<and> is_dir directory_out ''out'' \<and>
   \<not> known_ext ''out'' \<and> listdir directory_out ''out'' = [] \<and>
   shape sample_volume = [2, 1, 2] \<and>
   prepare_image sample_world sample_volume (Some sample_metadata) False = Inr sample_image \<and>
   length (GetDirection sample_image) = 9 \<and>
   fst (write_image sample_world sample_volume ''out'' True (Some sample_metadata) False
          directory_out) = None \<and>
   set (listdir (snd (write_image sample_world sample_volume ''out'' True (Some sample_metadata)
                        False directory_out)) ''out'')
     = {''IMG-000-000.dcm'', ''IMG-000-001.dcm''} \<and>
   card {''IMG-000-000.dcm'', ''IMG-000-001.dcm''} = (2 :: nat)"
proof -
  have s: "simple_path ''out''" by code_simp
  have m: "\<not> has_magic ''out''" by code_simp
  have d: "is_dir directory_out ''out''" by code_simp
  have k: "\<not> known_ext ''out''" by code_simp
  have e: "listdir directory_out ''out'' = []" by code_simp
  have sh: "shape sample_volume = [2, 1, 2]" by code_simp
  have l: "length (GetDirection sample_image) = 9" by code_simp
  have x: "\<forall>i<2. Execute_error sample_world (slice_path ''out'' 0 i) = None"
    by (simp add: sample_world_def)
  have i: "(\<lambda>i. ''IMG-000-'' @ format_03d (int i) @ ''.dcm'') ` {..<2}
           = {''IMG-000-000.dcm'', ''IMG-000-001.dcm''}"
  proof -
    have "{..<2::nat} = {0, 1}" by auto
    moreover have "''IMG-000-'' @ format_03d (int 0) @ ''.dcm'' = ''IMG-000-000.dcm''"
      by code_simp
    moreover have "''IMG-000-'' @ format_03d (int 1) @ ''.dcm'' = ''IMG-000-001.dcm''"
      by code_simp
    ultimately show ?thesis by simp
  qed
  from series_written_to_empty_directory
         [OF s m d k e sh _ _ _ sample_prepare l x, of True]
  have "fst (write_image sample_world sample_volume ''out'' True (Some sample_metadata) False
          directory_out) = None \<and>
        set (listdir (snd (write_image sample_world sample_volume ''out'' True
                             (Some sample_metadata) False directory_out)) ''out'')
          = (\<lambda>i. ''IMG-000-'' @ format_03d (int i) @ ''.dcm'') ` {..<2} \<and>
        card ((\<lambda>i. ''IMG-000-'' @ format_03d (int i) @ ''.dcm'') ` {..<2}) = 2"
    by simp
  with i s m d k e sh sample_prepare l show ?thesis by simp
qed

theorem directory_named_like_file_counterexample:
  "is_dir (directory_named ''series.nrrd'') ''series.nrrd'' \<and>
   listdir (directory_named ''series.nrrd'') ''series.nrrd'' = [] \<and>
   shape sample_volume = [2, 1, 2] \<and>
   write_image (failing_world (unwritable_message ''series.nrrd'')) sample_volume
     ''series.nrrd'' True (Some sample_metadata) False (directory_named ''series.nrrd'') =
     (Some (RuntimeError ''Cannot write to series.nrrd.''), directory_named ''series.nrrd'')"
  by code_simp

text \<open>
  Claim C8. Whenever \<^verbatim>\<open>plot_2d\<close> gets as far as drawing the image (its third call,
  \<^verbatim>\<open>ax.imshow\<close>, has returned), the array drawn is the image with a trailing or else
  a leading axis of extent one taken away when the image has three axes, and the image
  itself otherwise; it is drawn with the colour map \<^verbatim>\<open>gray\<close> exactly when the array
  drawn has two axes, and with no colour map otherwise. So an image of three axes whose
  last or first axis is a singleton is drawn as a plane of the same elements, in gray.
\<close>

theorem plot_2d_channel_normalisation:
  assumes "2 < length (snd (plot_2d pw img m bboxes points ov lw mc bc pc oc ot oa))"
  shows "\<exists>shown cm.
           snd (plot_2d pw img m bboxes points ov lw mc bc pc oc ot oa) ! 2 =
             Imshow (Plain shown) cm None (Some (0, shape img ! 1, shape img ! 0, 0)) \<and>
           (cm = Some ''gray'' \<longleftrightarrow> ndim shown = 2) \<and>
           (cm = None \<longleftrightarrow> ndim shown \<noteq> 2) \<and>
           (ndim img = 3 \<and> (last (shape img) = 1 \<or> hd (shape img) = 1) \<longrightarrow>
              ndim shown = 2 \<and> cm = Some ''gray'' \<and> dtype shown = dtype img \<and>
              shape shown = (if last (shape img) = 1 then butlast (shape img) else tl (shape img)) \<and>
              (length (elems img) = prod_list (shape img) \<longrightarrow> elems shown = elems img)) \<and>
           (\<not> (ndim img = 3 \<and> (last (shape img) = 1 \<or> hd (shape img) = 1)) \<longrightarrow> shown = img)"
proof -
  let ?sq = "squeeze_channel img"
  have "snd (plot_2d pw img m bboxes points ov lw mc bc pc oc ot oa) ! 2 =
        plot_2d_calls pw img m bboxes points ov lw mc bc pc oc ot oa ! 2"
    using assms by (rule plot_2d_nth)
  also have "\<dots> = Imshow (Plain ?sq) (cmap_of ?sq) None (Some (0, shape img ! 1, shape img ! 0, 0))"
    by (simp add: plot_2d_calls_def Let_def numeral_2_eq_2)
  finally have p: "snd (plot_2d pw img m bboxes points ov lw mc bc pc oc ot oa) ! 2 =
      Imshow (Plain ?sq) (cmap_of ?sq) None (Some (0, shape img ! 1, shape img ! 0, 0))" .
  have c: "(cmap_of ?sq = Some ''gray'' \<longleftrightarrow> ndim ?sq = 2) \<and> (cmap_of ?sq = None \<longleftrightarrow> ndim ?sq \<noteq> 2)"
    by (simp add: cmap_of_def)
  have s: "ndim ?sq = 2 \<and> cmap_of ?sq = Some ''gray'' \<and> dtype ?sq = dtype img \<and>
           shape ?sq = (if last (shape img) = 1 then butlast (shape img) else tl (shape img)) \<and>
           (length (elems img) = prod_list (shape img) \<longrightarrow> elems ?sq = elems img)"
    if "ndim img = 3 \<and> (last (shape img) = 1 \<or> hd (shape img) = 1)"
    using that squeeze_channel_singleton [of img] by (simp add: cmap_of_def)
  have u: "?sq = img" if "\<not> (ndim img = 3 \<and> (last (shape img) = 1 \<or> hd (shape img) = 1))"
    using that by (auto simp: squeeze_channel_def)
  show ?thesis
    using p c s u by (intro exI [of _ "?sq"] exI [of _ "cmap_of ?sq"] conjI) auto
qed

theorem plot_2d_channel_normalisation_witness:
  "2 < length (snd (plot_2d sample_plot_world trailing_channel None None None None 2
                      ''r'' ''b'' ''g'' ''jet'' (1 / 10) (1 / 10))) \<and>
   snd (plot_2d sample_plot_world trailing_channel None None None None 2
          ''r'' ''b'' ''g'' ''jet'' (1 / 10) (1 / 10)) ! 2 =
     Imshow (Plain \<lparr>dtype = ''uint8'', shape = [2, 2], elems = [1, 2, 3, 4]\<rparr>)
       (Some ''gray'') None (Some (0, 2, 2, 0)) \<and>
   snd (plot_2d sample_plot_world leading_channel None None None None 2
          ''r'' ''b'' ''g'' ''jet'' (1 / 10) (1 / 10)) ! 2 =
     Imshow (Plain \<lparr>dtype = ''uint8'', shape = [2, 2], elems = [1, 2, 3, 4]\<rparr>)
       (Some ''gray'') None (Some (0, 2, 1, 0)) \<and>
   snd (plot_2d sample_plot_world colour_image None None None None 2
          ''r'' ''b'' ''g'' ''jet'' (1 / 10) (1 / 10)) ! 2 =
     Imshow (Plain colour_image) None None (Some (0, 1, 2, 0))"
proof -
  have len: "length (snd (plot_2d sample_plot_world a None None None None 2
                      ''r'' ''b'' ''g'' ''jet'' (1 / 10) (1 / 10))) = 10" if "2 \<le> ndim a" for a
    using that
    by (simp add: plot_2d_def plot_2d_calls_def sample_plot_world_def Let_def)
  have n: "ndim trailing_channel = 3" "ndim leading_channel = 3" "ndim colour_image = 3"
    by (simp_all add: ndim_def trailing_channel_def leading_channel_def colour_image_def)
  note t = plot_2d_channel_normalisation
    [of sample_plot_world _ None None None None 2 "''r''" "''b''" "''g''" "''jet''"
        "1 / 10" "1 / 10"]
  have a: "snd (plot_2d sample_plot_world trailing_channel None None None None 2
          ''r'' ''b'' ''g'' ''jet'' (1 / 10) (1 / 10)) ! 2 =
     Imshow (Plain \<lparr>dtype = ''uint8'', shape = [2, 2], elems = [1, 2, 3, 4]\<rparr>)
       (Some ''gray'') None (Some (0, 2, 2, 0))"
    using t [of trailing_channel] len [of trailing_channel] n
    by (auto simp: trailing_channel_def)
  have b: "snd (plot_2d sample_plot_world leading_channel None None None None 2
          ''r'' ''b'' ''g'' ''jet'' (1 / 10) (1 / 10)) ! 2 =
     Imshow (Plain \<lparr>dtype = ''uint8'', shape = [2, 2], elems = [1, 2, 3, 4]\<rparr>)
       (Some ''gray'') None (Some (0, 2, 1, 0))"
    using t [of leading_channel] len [of leading_channel] n
    by (auto simp: leading_channel_def)
  have c: "snd (plot_2d sample_plot_world colour_image None None None None 2
          ''r'' ''b'' ''g'' ''jet'' (1 / 10) (1 / 10)) ! 2 =
     Imshow (Plain colour_image) None None (Some (0, 1, 2, 0))"
    using t [of colour_image] len [of colour_image] n
    by (auto simp: colour_image_def)
  from a b c len [of trailing_channel] n show ?thesis by simp
qed

text \<open>
  Claim C9. A call of \<^verbatim>\<open>write_image\<close> that leaves \<^verbatim>\<open>metadata\<close> at its default
  \<^verbatim>\<open>None\<close> raises an error and leaves the file system as it was, whatever the
  destination: the error is the TypeError of \<^verbatim>\<open>metadata['spacing']\<close>, unless building
  the image from the array has already failed.
\<close>

theorem write_image_without_metadata:
  "write_image w data filepath compression None resample fs =
     (Some (case GetImageFromArray w data of
              Inl e \<Rightarrow> e
            | Inr img \<Rightarrow> TypeError (quoted ''NoneType'' @ '' object is not subscriptable'')),
      fs)"
  by (simp add: write_image_def prepare_image_def split: sum.splits)

theorem write_image_without_metadata_witness:
  "known_ext ''vol.nii'' \<and>
   write_image sample_world sample_volume ''vol.nii'' True None False directory_out =
     (Some (TypeError (quoted ''NoneType'' @ '' object is not subscriptable'')), directory_out)"
proof -
  have "GetImageFromArray sample_world sample_volume =
        Inr \<lparr>GetSize = [2, 1, 2], GetSpacing = [1, 1, 1], GetOrigin = [0, 0, 0],
             GetDirection = [1, 0, 0, 0, 1, 0, 0, 0, 1], pixels = [1, 2, 3, 4]\<rparr>"
    by code_simp
  moreover have "known_ext ''vol.nii''" by code_simp
  ultimately show ?thesis
    using write_image_without_metadata
      [of sample_world sample_volume "''vol.nii''" True False directory_out]
    by simp
qed

text \<open>
  Claim C10, as amended. \<^verbatim>\<open>add_2d_overlay\<close> with the threshold 0 masks nothing: the
  array given to \<^verbatim>\<open>imshow\<close> is the overlay itself, negative values included. With any
  other threshold the element \<open>i\<close> is masked exactly when numpy's comparison
  \<^verbatim>\<open>overlay < threshold\<close> holds for it; where numpy compares the exact values, as it
  does for a float64 overlay, these are the elements below the threshold. A run of
  \<^verbatim>\<open>plot_2d\<close> in which no call raises makes these calls for the overlay it is given.
  As the claim was stated it fails: numpy compares a float32 overlay with the
  threshold rounded to float32, and the element float32(0.7) is below the Python float
  0.7 and is not masked.
\<close>

theorem overlay_masking_by_threshold:
  "(threshold = 0 \<longrightarrow>
      add_2d_overlay pw overlay threshold cmap alpha =
        [Imshow (Plain overlay) (Some cmap) (Some alpha) None]) \<and>
   (threshold \<noteq> 0 \<longrightarrow>
      (\<exists>a. add_2d_overlay pw overlay threshold cmap alpha =
             [Masked_where overlay threshold, Imshow a (Some cmap) (Some alpha) None] \<and>
           array_data a = overlay \<and>
           (\<forall>i<length (elems overlay).
              masked_at a i = np_less pw (dtype overlay) (elems overlay ! i) threshold) \<and>
           ((\<forall>v. np_less pw (dtype overlay) v threshold = (v < threshold)) \<longrightarrow>
            (\<forall>i<length (elems overlay). masked_at a i = (elems overlay ! i < threshold))))) \<and>
   (fst (plot_2d pw img m bboxes points (Some overlay) lw mc bc pc cmap threshold alpha) = None
      \<longrightarrow> set (add_2d_overlay pw overlay threshold cmap alpha)
           \<subseteq> set (snd (plot_2d pw img m bboxes points (Some overlay) lw mc bc pc cmap
                          threshold alpha)))"
proof (intro conjI impI)
  assume "threshold = 0"
  then show "add_2d_overlay pw overlay threshold cmap alpha =
        [Imshow (Plain overlay) (Some cmap) (Some alpha) None]"
    by (simp add: add_2d_overlay_def)
next
  assume t: "threshold \<noteq> 0"
  let ?a = "Masked overlay (map (\<lambda>v. np_less pw (dtype overlay) v threshold) (elems overlay))"
  have "add_2d_overlay pw overlay threshold cmap alpha =
          [Masked_where overlay threshold, Imshow ?a (Some cmap) (Some alpha) None]"
    using t by (simp add: add_2d_overlay_def masked_where_def)
  moreover have "array_data ?a = overlay" by simp
  moreover have "\<forall>i<length (elems overlay).
      masked_at ?a i = np_less pw (dtype overlay) (elems overlay ! i) threshold"
    by simp
  ultimately show "\<exists>a. add_2d_overlay pw overlay threshold cmap alpha =
             [Masked_where overlay threshold, Imshow a (Some cmap) (Some alpha) None] \<and>
           array_data a = overlay \<and>
           (\<forall>i<length (elems overlay).
              masked_at a i = np_less pw (dtype overlay) (elems overlay ! i) threshold) \<and>
           ((\<forall>v. np_less pw (dtype overlay) v threshold = (v < threshold)) \<longrightarrow>
            (\<forall>i<length (elems overlay). masked_at a i = (elems overlay ! i < threshold)))"
    by (intro exI [of _ ?a]) simp
next
  assume "fst (plot_2d pw img m bboxes points (Some overlay) lw mc bc pc cmap threshold alpha)
          = None"
  from plot_2d_all [OF this]
  show "set (add_2d_overlay pw overlay threshold cmap alpha)
        \<subseteq> set (snd (plot_2d pw img m bboxes points (Some overlay) lw mc bc pc cmap
                     threshold alpha))"
    by (simp add: plot_2d_calls_def Let_def) blast
qed

theorem overlay_masking_by_threshold_witness:
  "add_2d_overlay sample_plot_world signed_overlay 0 ''jet'' (1 / 10) =
     [Imshow (Plain signed_overlay) (Some ''jet'') (Some (1 / 10)) None] \<and>
   elems signed_overlay ! 0 < 0 \<and>
   (\<exists>a. add_2d_overlay sample_plot_world signed_overlay (1 / 10) ''jet'' (1 / 10) =
          [Masked_where signed_overlay (1 / 10), Imshow a (Some ''jet'') (Some (1 / 10)) None] \<and>
        masked_at a 0 \<and> \<not> masked_at a 1) \<and>
   fst (plot_2d sample_plot_world sample_plane None None None (Some signed_overlay) 2
          ''r'' ''b'' ''g'' ''jet'' (1 / 10) (1 / 10)) = None \<and>
   set (add_2d_overlay sample_plot_world signed_overlay (1 / 10) ''jet'' (1 / 10))
     \<subseteq> set (snd (plot_2d sample_plot_world sample_plane None None None (Some signed_overlay) 2
                   ''r'' ''b'' ''g'' ''jet'' (1 / 10) (1 / 10)))"
proof -
  have e: "elems signed_overlay = [- 1, 1 / 2]" "dtype signed_overlay = ''float64''"
    by (simp_all add: signed_overlay_def)
  have x: "\<forall>v. np_less sample_plot_world (dtype signed_overlay) v (1 / 10) = (v < 1 / 10)"
    by (simp add: sample_plot_world_def e)
  have r: "fst (plot_2d sample_plot_world sample_plane None None None (Some signed_overlay) 2
          ''r'' ''b'' ''g'' ''jet'' (1 / 10) (1 / 10)) = None"
    by (simp add: plot_2d_def plot_2d_calls_def sample_plot_world_def sample_plane_def ndim_def
        add_2d_overlay_def Let_def)
  have z: "(0::real) = 0" by simp
  have nz: "(1 / 10 :: real) \<noteq> 0" by simp
  note t0 = overlay_masking_by_threshold
    [of 0 sample_plot_world signed_overlay "''jet''" "1 / 10" sample_plane None None None 2
        "''r''" "''b''" "''g''"]
  note t1 = overlay_masking_by_threshold
    [of "1 / 10" sample_plot_world signed_overlay "''jet''" "1 / 10" sample_plane None None None 2
        "''r''" "''b''" "''g''"]
  from t0 z have a: "add_2d_overlay sample_plot_world signed_overlay 0 ''jet'' (1 / 10) =
     [Imshow (Plain signed_overlay) (Some ''jet'') (Some (1 / 10)) None]"
    by blast
  from t1 nz x obtain a where
    "add_2d_overlay sample_plot_world signed_overlay (1 / 10) ''jet'' (1 / 10) =
          [Masked_where signed_overlay (1 / 10), Imshow a (Some ''jet'') (Some (1 / 10)) None]"
    and "\<forall>i<length (elems signed_overlay). masked_at a i = (elems signed_overlay ! i < 1 / 10)"
    by blast
  then have b: "\<exists>a. add_2d_overlay sample_plot_world signed_overlay (1 / 10) ''jet'' (1 / 10) =
          [Masked_where signed_overlay (1 / 10), Imshow a (Some ''jet'') (Some (1 / 10)) None] \<and>
        masked_at a 0 \<and> \<not> masked_at a 1"
    by (intro exI [of _ a]) (simp add: e)
  from t1 r have c: "set (add_2d_overlay sample_plot_world signed_overlay (1 / 10) ''jet'' (1 / 10))
     \<subseteq> set (snd (plot_2d sample_plot_world sample_plane None None None (Some signed_overlay) 2
                   ''r'' ''b'' ''g'' ''jet'' (1 / 10) (1 / 10)))"
    by blast
  from a b c r show ?thesis by (simp add: e)
qed

theorem overlay_float32_counterexample:
  "float64_0_7 \<noteq> 0 \<and>
   elems float32_overlay ! 0 < float64_0_7 \<and>
   add_2d_overlay sample_plot_world float32_overlay float64_0_7 ''jet'' (1 / 10) =
     [Masked_where float32_overlay float64_0_7,
      Imshow (Masked float32_overlay [False]) (Some ''jet'') (Some (1 / 10)) None] \<and>
   \<not> masked_at (Masked float32_overlay [False]) 0"
proof -
  have n: "float64_0_7 \<noteq> 0" by (simp add: float64_0_7_def)
  have l: "float32_0_7 < float64_0_7" by (simp add: float64_0_7_def float32_0_7_def)
  have "np_less sample_plot_world ''float32'' float32_0_7 float64_0_7 = False"
    by (simp add: sample_plot_world_def to_float32_0_7)
  with n l show ?thesis
    by (simp add: add_2d_overlay_def masked_where_def float32_overlay_def)
qed

end
